theory Spec2Isabelle
  imports Main "HOL-Library.AList"
begin

section \<open>Python values\<close>

text \<open>
  The values that travel through \<^verbatim>\<open>BurstChainClient\<close>: what \<^verbatim>\<open>json.loads\<close> returns and
  what is handed to \<^verbatim>\<open>requests\<close> as \<^verbatim>\<open>json=\<close>. \<open>VNone\<close> is Python's \<^verbatim>\<open>None\<close>: the absent
  body, the result of \<^verbatim>\<open>dict.get\<close> on a missing key and the decoding of JSON \<^verbatim>\<open>null\<close> are
  all this one value. A dict is an association list in insertion order with string keys;
  a tuple is kept apart from a list, as Python keeps it. A character stands for a code
  point below 256. Floats are left out: no operation of the client computes with numbers.
\<close>

datatype pyval =
    VNone
  | VBool bool
  | VInt int
  | VStr string
  | VList "pyval list"
  | VTuple "pyval list"
  | VDict "(string \<times> pyval) list"

text \<open>
  How a call can end without a value: \<^verbatim>\<open>exit(1)\<close> stops the process with that status;
  \<^verbatim>\<open>resp.get\<close> on a value that is not a dict raises \<^verbatim>\<open>AttributeError\<close>; \<^verbatim>\<open>json.loads\<close> on text
  that is not JSON raises \<^verbatim>\<open>JSONDecodeError\<close>.
\<close>

datatype failure = Exit int | AttributeError | JSONDecodeError

type_synonym headers = "(string \<times> string) list"

text \<open>\<^verbatim>\<open>d.update(e)\<close>: the keys of \<open>e\<close> in order; a key already in \<open>d\<close> keeps its place and
  takes the new value, a new key is appended.\<close>

definition dict_update :: "('k \<times> 'v) list \<Rightarrow> ('k \<times> 'v) list \<Rightarrow> ('k \<times> 'v) list" where
  "dict_update d e = fold (\<lambda>(k, v). AList.update k v) e d"

text \<open>\<^verbatim>\<open>resp.get(key)\<close>: only a dict has the method; a missing key gives \<^verbatim>\<open>None\<close>.\<close>

fun py_get :: "pyval \<Rightarrow> string \<Rightarrow> failure + pyval" where
  "py_get (VDict kvs) key = Inr (case map_of kvs key of None \<Rightarrow> VNone | Some v \<Rightarrow> v)"
| "py_get VNone key = Inl AttributeError"
| "py_get (VBool b) key = Inl AttributeError"
| "py_get (VInt i) key = Inl AttributeError"
| "py_get (VStr s) key = Inl AttributeError"
| "py_get (VList xs) key = Inl AttributeError"
| "py_get (VTuple xs) key = Inl AttributeError"

text \<open>The decimal text an f-string gives an integer.\<close>

fun str_nat :: "nat \<Rightarrow> string" where
  "str_nat n = (if n < 10 then [''0123456789'' ! n]
                else str_nat (n div 10) @ [''0123456789'' ! (n mod 10)])"

declare str_nat.simps [simp del]

definition str_int :: "int \<Rightarrow> string" where
  "str_int i = (if i < 0 then CHR ''-'' # str_nat (nat (- i)) else str_nat (nat i))"

section \<open>The session, the remote service and the program state\<close>

text \<open>\<^verbatim>\<open>requests.Session\<close>, as far as the client touches it: the flag \<^verbatim>\<open>trust_env\<close>.\<close>

record session =
  trust_env :: bool

text \<open>The object \<^verbatim>\<open>BurstChainClient\<close>: \<^verbatim>\<open>_server\<close>, \<^verbatim>\<open>_client\<close>, \<^verbatim>\<open>_session\<close>.\<close>

record burst_chain_client =
  server :: string
  client :: string
  session :: session

text \<open>One call \<^verbatim>\<open>session.request(action, url, headers=, json=, auth=)\<close>: the session it is made
  on and its arguments.\<close>

record request =
  req_session :: session
  req_action :: string
  req_url :: string
  req_headers :: headers
  req_json :: pyval
  req_auth :: "(string \<times> string) option"

record response =
  status_code :: int
  resp_text :: string

datatype level = ERROR | INFO

text \<open>
  What the code takes from outside the repository: the remote service (a state machine
  that answers every request; a transport that raises instead is outside this model),
  and the \<^verbatim>\<open>json\<close> module's decoder and encoder.
\<close>

record 's environment =
  remote :: "'s \<Rightarrow> request \<Rightarrow> response \<times> 's"
  loads :: "string \<Rightarrow> pyval option"
  dumps :: "pyval \<Rightarrow> string"

text \<open>
  The state the methods run in: the client object itself, the state of the remote
  service, the requests made so far (oldest first) and the calls of the logger.
\<close>

record 's state =
  self :: burst_chain_client
  remote_state :: 's
  sent :: "request list"
  logged :: "(level \<times> string) list"

type_synonym ('s, 'a) effect = "'s state \<Rightarrow> (failure + 'a) \<times> 's state"

definition init :: "string \<Rightarrow> string \<Rightarrow> burst_chain_client" where
  "init server_arg client_arg =
     \<lparr>server = server_arg, client = client_arg, session = \<lparr>trust_env = False\<rparr>\<rparr>"

definition session_request :: "'s environment \<Rightarrow> request \<Rightarrow> 's state \<Rightarrow> response \<times> 's state" where
  "session_request E r st =
     (case remote E (remote_state st) r of
        (resp, s') \<Rightarrow> (resp, st\<lparr>remote_state := s', sent := sent st @ [r]\<rparr>))"

section \<open>The request helpers\<close>

definition base_headers :: headers where
  "base_headers =
     [(''Content-Type'', ''application/json''), (''Content-Accept'', ''application/json'')]"

definition merged_headers :: "headers option \<Rightarrow> headers" where
  "merged_headers addl_headers =
     (case addl_headers of
        None \<Rightarrow> base_headers
      | Some ah \<Rightarrow> if ah \<noteq> [] then dict_update base_headers ah else base_headers)"

definition failure_message :: "string \<Rightarrow> response \<Rightarrow> string" where
  "failure_message path resp =
     ''Call for '' @ path @ '' failed with code '' @ str_int (status_code resp)
       @ '' and response of '' @ resp_text resp"

definition send ::
  "'s environment \<Rightarrow> string \<Rightarrow> string \<Rightarrow> headers option \<Rightarrow> pyval \<Rightarrow>
     (string \<times> string) option \<Rightarrow> ('s, pyval) effect" where
  "send E action path addl_headers body auth st =
     (case session_request E
             \<lparr>req_session = session (self st), req_action = action,
              req_url = server (self st) @ path, req_headers = merged_headers addl_headers,
              req_json = body, req_auth = auth\<rparr> st of
        (resp, st') \<Rightarrow>
          if status_code resp \<noteq> 200 then
            (Inl (Exit 1), st'\<lparr>logged := logged st' @ [(ERROR, failure_message path resp)]\<rparr>)
          else if resp_text resp \<noteq> [] then
            (case loads E (resp_text resp) of
               None \<Rightarrow> (Inl JSONDecodeError, st')
             | Some v \<Rightarrow> (Inr v, st'))
          else (Inr VNone, st'))"

definition send_with_priv_id ::
  "'s environment \<Rightarrow> string \<Rightarrow> string \<Rightarrow> string option \<Rightarrow> pyval \<Rightarrow> ('s, pyval) effect" where
  "send_with_priv_id E action path priv_id body st =
     (let headers = (case priv_id of
                       None \<Rightarrow> None
                     | Some p \<Rightarrow> if p \<noteq> [] then Some [(''Authorization'', ''ID '' @ p)] else None)
      in send E action path headers body None st)"

section \<open>The domain operations\<close>

definition put_metadata ::
  "'s environment \<Rightarrow> pyval \<Rightarrow> string \<Rightarrow> string \<Rightarrow> ('s, pyval) effect" where
  "put_metadata E dictionary username password st =
     send E ''PUT'' ''/api/metadata/dictionary'' None dictionary (Some (username, password)) st"

definition get_private_id :: "'s environment \<Rightarrow> ('s, pyval) effect" where
  "get_private_id E st =
     (case send E ''GET'' ''/api/burstchain/id/private'' None VNone None st of
        (Inl e, st') \<Rightarrow> (Inl e, st')
      | (Inr resp, st') \<Rightarrow> (py_get resp ''private_id'', st'))"

definition get_public_id :: "'s environment \<Rightarrow> string option \<Rightarrow> ('s, pyval) effect" where
  "get_public_id E private_id st =
     (case send_with_priv_id E ''GET'' ''/api/burstchain/id/public'' private_id VNone st of
        (Inl e, st') \<Rightarrow> (Inl e, st')
      | (Inr resp, st') \<Rightarrow> (py_get resp ''public_id'', st'))"

definition create_asset ::
  "'s environment \<Rightarrow> string option \<Rightarrow> string \<Rightarrow> string list \<Rightarrow> pyval \<Rightarrow> pyval \<Rightarrow>
     ('s, pyval) effect" where
  "create_asset E private_id chain_name owners asset asset_metadata st =
     (let body = VDict [(''owners'', VList (map VStr owners)),
                        (''asset'', asset),
                        (''asset_metadata'', asset_metadata)]
      in case send_with_priv_id E ''POST''
                (''/api/burstchain/'' @ client (self st) @ ''/'' @ chain_name @ ''/asset'')
                private_id body st of
           (Inl e, st') \<Rightarrow> (Inl e, st')
         | (Inr resp, st') \<Rightarrow> (py_get resp ''asset_id'', st'))"

definition get_asset_status ::
  "'s environment \<Rightarrow> string option \<Rightarrow> string \<Rightarrow> string \<Rightarrow> ('s, pyval) effect" where
  "get_asset_status E private_id chain_name asset_id st =
     (case send_with_priv_id E ''GET''
             (''/api/burstchain/'' @ client (self st) @ ''/'' @ chain_name @ ''/'' @ asset_id
                @ ''/status'')
             private_id VNone st of
        (Inl e, st') \<Rightarrow> (Inl e, st')
      | (Inr resp, st') \<Rightarrow> (py_get resp ''message'', st'))"

definition get_asset_by_id ::
  "'s environment \<Rightarrow> string option \<Rightarrow> string \<Rightarrow> string \<Rightarrow> ('s, pyval) effect" where
  "get_asset_by_id E private_id chain_name asset_id st =
     send_with_priv_id E ''GET''
       (''/api/burstchain/'' @ client (self st) @ ''/'' @ chain_name @ ''/'' @ asset_id
          @ ''/latest'')
       private_id VNone st"

definition get_asset_by_hash ::
  "'s environment \<Rightarrow> string option \<Rightarrow> string \<Rightarrow> string \<Rightarrow> ('s, pyval) effect" where
  "get_asset_by_hash E private_id chain_name hash_value st =
     send_with_priv_id E ''GET''
       (''/api/burstchain/'' @ client (self st) @ ''/'' @ chain_name @ ''/'' @ hash_value)
       private_id VNone st"

definition update_asset ::
  "'s environment \<Rightarrow> string option \<Rightarrow> string \<Rightarrow> string \<Rightarrow> pyval \<Rightarrow> pyval \<Rightarrow>
     ('s, pyval) effect" where
  "update_asset E private_id chain_name asset_id asset asset_metadata st =
     (let body = VDict [(''asset_id'', VStr asset_id),
                        (''asset'', asset),
                        (''asset_metadata'', asset_metadata)]
      in case send_with_priv_id E ''PUT''
                (''/api/burstchain/'' @ client (self st) @ ''/'' @ chain_name @ ''/asset'')
                private_id body st of
           (Inl e, st') \<Rightarrow> (Inl e, st')
         | (Inr resp, st') \<Rightarrow> (py_get resp ''asset_id'', st'))"

definition transfer_asset ::
  "'s environment \<Rightarrow> string option \<Rightarrow> string \<Rightarrow> string \<Rightarrow> string list \<Rightarrow> string list \<Rightarrow>
     string \<Rightarrow> ('s, pyval) effect" where
  "transfer_asset E private_id chain_name asset_id owners new_owners new_signer_public_id st =
     (let body = VDict [(''asset_id'', VStr asset_id),
                        (''owners'', VList (map VStr owners)),
                        (''new_owners'', VList (map VStr new_owners)),
                        (''new_signer_public_id'', VStr new_signer_public_id)]
      in case send_with_priv_id E ''POST''
                (''/api/burstchain/'' @ client (self st) @ ''/'' @ chain_name @ ''/transfer'')
                private_id body st of
           (Inl e, st') \<Rightarrow> (Inl e, st')
         | (Inr resp, st') \<Rightarrow> (py_get resp ''asset_id'', st'))"

definition query ::
  "'s environment \<Rightarrow> string option \<Rightarrow> string \<Rightarrow> string \<Rightarrow> ('s, pyval) effect" where
  "query E private_id chain_name tql st =
     (let body = VDict [(''tqlWhereClause'', VStr tql)]
      in case send_with_priv_id E ''POST''
                (''/api/burstchain/'' @ client (self st) @ ''/'' @ chain_name @ ''/query'')
                private_id body st of
           (Inl e, st') \<Rightarrow> (Inl e, st')
         | (Inr resp, st') \<Rightarrow> (py_get resp ''assets'', st'))"

definition map_reduce ::
  "'s environment \<Rightarrow> string option \<Rightarrow> string \<Rightarrow> string \<Rightarrow> string \<Rightarrow> string option \<Rightarrow>
     string \<Rightarrow> ('s, pyval) effect" where
  "map_reduce E private_id chain_name map_func reduce_func finalize_func tql st =
     (let body = VDict [(''map'', VStr map_func),
                        (''reduce'', VStr reduce_func),
                        (''finalize'', (case finalize_func of None \<Rightarrow> VNone | Some f \<Rightarrow> VStr f)),
                        (''tqlWhereClause'', VStr tql)]
      in case send_with_priv_id E ''POST''
                (''/api/burstchain/'' @ client (self st) @ ''/'' @ chain_name
                   @ ''/mapreduce/query'')
                private_id body st of
           (Inl e, st') \<Rightarrow> (Inl e, st')
         | (Inr resp, st') \<Rightarrow> (py_get resp ''records'', st'))"

definition create_consent ::
  "'s environment \<Rightarrow> string option \<Rightarrow> string \<Rightarrow> string list \<Rightarrow> string \<Rightarrow> string \<Rightarrow>
     ('s, pyval) effect" where
  "create_consent E private_id chain_name owners contract_name contract st =
     (let body = VDict [(''contract'', VStr contract),
                        (''name'', VStr contract_name),
                        (''smart_contract_metadata'',
                           VDict [(''loaded by'', VStr ''hello world demo'')]),
                        (''smart_contract_type'', VStr ''consent''),
                        (''owners'', VList (map VStr owners))];
          st1 = st\<lparr>logged := logged st @ [(INFO, dumps E body)]\<rparr>
      in case send_with_priv_id E ''POST''
                (''/api/burstchain/'' @ client (self st1) @ ''/'' @ chain_name
                   @ ''/smartcontract'')
                private_id body st1 of
           (Inl e, st') \<Rightarrow> (Inl e, st')
         | (Inr resp, st') \<Rightarrow> (py_get resp ''asset_id'', st'))"

section \<open>The operations as data, and a client's lifetime\<close>

text \<open>Every method of the class as a value, so that statements can range over all of them.\<close>

datatype operation =
    Send string string "headers option" pyval "(string \<times> string) option"
  | SendWithPrivId string string "string option" pyval
  | PutMetadata pyval string string
  | GetPrivateId
  | GetPublicId "string option"
  | CreateAsset "string option" string "string list" pyval pyval
  | GetAssetStatus "string option" string string
  | GetAssetById "string option" string string
  | GetAssetByHash "string option" string string
  | UpdateAsset "string option" string string pyval pyval
  | TransferAsset "string option" string string "string list" "string list" string
  | Query "string option" string string
  | MapReduce "string option" string string string "string option" string
  | CreateConsent "string option" string "string list" string string

fun perform :: "'s environment \<Rightarrow> operation \<Rightarrow> ('s, pyval) effect" where
  "perform E (Send action path addl_headers body auth) = send E action path addl_headers body auth"
| "perform E (SendWithPrivId action path priv_id body) = send_with_priv_id E action path priv_id body"
| "perform E (PutMetadata dictionary username password) = put_metadata E dictionary username password"
| "perform E GetPrivateId = get_private_id E"
| "perform E (GetPublicId private_id) = get_public_id E private_id"
| "perform E (CreateAsset private_id chain_name owners asset asset_metadata) =
     create_asset E private_id chain_name owners asset asset_metadata"
| "perform E (GetAssetStatus private_id chain_name asset_id) =
     get_asset_status E private_id chain_name asset_id"
| "perform E (GetAssetById private_id chain_name asset_id) =
     get_asset_by_id E private_id chain_name asset_id"
| "perform E (GetAssetByHash private_id chain_name hash_value) =
     get_asset_by_hash E private_id chain_name hash_value"
| "perform E (UpdateAsset private_id chain_name asset_id asset asset_metadata) =
     update_asset E private_id chain_name asset_id asset asset_metadata"
| "perform E (TransferAsset private_id chain_name asset_id owners new_owners new_signer) =
     transfer_asset E private_id chain_name asset_id owners new_owners new_signer"
| "perform E (Query private_id chain_name tql) = query E private_id chain_name tql"
| "perform E (MapReduce private_id chain_name map_func reduce_func finalize_func tql) =
     map_reduce E private_id chain_name map_func reduce_func finalize_func tql"
| "perform E (CreateConsent private_id chain_name owners contract_name contract) =
     create_consent E private_id chain_name owners contract_name contract"

text \<open>A caller making one call after the other; the first failure ends the run, as the
  exit or the uncaught exception ends the process.\<close>

fun run :: "'s environment \<Rightarrow> operation list \<Rightarrow> 's state \<Rightarrow> failure option \<times> 's state" where
  "run E [] st = (None, st)"
| "run E (c # cs) st =
     (case perform E c st of
        (Inl e, st') \<Rightarrow> (Some e, st')
      | (Inr v, st') \<Rightarrow> run E cs st')"

section \<open>What the transport does with a request\<close>

text \<open>
  The request as \<^verbatim>\<open>send\<close> builds it from the client and its arguments.
\<close>

definition http_request ::
  "burst_chain_client \<Rightarrow> string \<Rightarrow> string \<Rightarrow> headers option \<Rightarrow> pyval \<Rightarrow>
     (string \<times> string) option \<Rightarrow> request" where
  "http_request c action path addl_headers body auth =
     \<lparr>req_session = session c, req_action = action, req_url = server c @ path,
      req_headers = merged_headers addl_headers, req_json = body, req_auth = auth\<rparr>"

text \<open>
  The credentials \<^verbatim>\<open>requests\<close> puts on the wire, given what the user's \<^verbatim>\<open>~/.netrc\<close> holds for
  a URL: those of \<^verbatim>\<open>auth=\<close>, and only without them and on a session that trusts its
  environment those of the file (the source's comment on \<^verbatim>\<open>trust_env = False\<close>:
  "disables ~/.netrc").
\<close>

definition credentials_used ::
  "(string \<Rightarrow> (string \<times> string) option) \<Rightarrow> request \<Rightarrow> (string \<times> string) option" where
  "credentials_used netrc r =
     (case req_auth r of
        Some a \<Rightarrow> Some a
      | None \<Rightarrow> if trust_env (req_session r) then netrc (req_url r) else None)"


text \<open>The remote answers request \<open>r\<close>, in the state \<open>st\<close> has reached, with status 200 and a
  body that is not empty and decodes to \<open>v\<close>.\<close>

definition answers :: "'s environment \<Rightarrow> 's state \<Rightarrow> request \<Rightarrow> pyval \<Rightarrow> bool" where
  "answers E st r v =
     (status_code (fst (remote E (remote_state st) r)) = 200
      \<and> resp_text (fst (remote E (remote_state st) r)) \<noteq> []
      \<and> loads E (resp_text (fst (remote E (remote_state st) r))) = Some v)"

section \<open>A reference JSON codec and simulated remotes\<close>

text \<open>
  The codec of Python's \<^verbatim>\<open>json\<close> module on the values above, to instantiate the environment
  with: \<^verbatim>\<open>json.dumps\<close> with its defaults (separators \<^verbatim>\<open>", "\<close> and \<^verbatim>\<open>": "\<close>, every character
  outside \<^verbatim>\<open>' '..'~'\<close> escaped, a tuple written as an array) and \<^verbatim>\<open>json.loads\<close> with its
  defaults (strict: no raw control character in a string, no leading zero). Text that
  \<^verbatim>\<open>json.loads\<close> decodes to a value outside \<open>pyval\<close> (a float, a code point from 256 on) is
  not decoded here.
\<close>

fun skip_ws :: "string \<Rightarrow> string" where
  "skip_ws [] = []"
| "skip_ws (c # cs) =
     (if c = CHR '' '' \<or> c = CHR 0x09 \<or> c = CHR 0x0A \<or> c = CHR 0x0D then skip_ws cs else c # cs)"

text \<open>The escapes of a string: the character after the backslash and what it stands for.\<close>

definition unescape :: "char \<Rightarrow> char option" where
  "unescape d =
     map_of [(CHR 0x22, CHR 0x22), (CHR 0x5C, CHR 0x5C), (CHR ''/'', CHR ''/''),
             (CHR ''b'', CHR 0x08), (CHR ''f'', CHR 0x0C), (CHR ''n'', CHR 0x0A),
             (CHR ''r'', CHR 0x0D), (CHR ''t'', CHR 0x09)] d"

definition hex_of :: "char \<Rightarrow> nat option" where
  "hex_of c =
     map_of (zip ''0123456789abcdefABCDEF''
               [0, 1, 2, 3, 4, 5, 6, 7, 8, 9, 10, 11, 12, 13, 14, 15, 10, 11, 12, 13, 14, 15]) c"

definition hex4 :: "char \<Rightarrow> char \<Rightarrow> char \<Rightarrow> char \<Rightarrow> nat option" where
  "hex4 h1 h2 h3 h4 =
     (case (hex_of h1, hex_of h2, hex_of h3, hex_of h4) of
        (Some a, Some b, Some c, Some d) \<Rightarrow> Some (((a * 16 + b) * 16 + c) * 16 + d)
      | _ \<Rightarrow> None)"

text \<open>The text after an opening quote: the string up to the closing quote, and the rest.\<close>

fun scan_string :: "string \<Rightarrow> (string \<times> string) option" where
  "scan_string [] = None"
| "scan_string (c # cs) =
     (if c = CHR 0x22 then Some ([], cs)
      else if c = CHR 0x5C then
        (case cs of
           [] \<Rightarrow> None
         | d # ds \<Rightarrow>
             if d = CHR ''u'' then
               (case ds of
                  h1 # h2 # h3 # h4 # es \<Rightarrow>
                    (case hex4 h1 h2 h3 h4 of
                       None \<Rightarrow> None
                     | Some n \<Rightarrow>
                         if n < 256 then
                           (case scan_string es of
                              None \<Rightarrow> None
                            | Some (s, r) \<Rightarrow> Some (char_of n # s, r))
                         else None)
                | _ \<Rightarrow> None)
             else
               (case unescape d of
                  None \<Rightarrow> None
                | Some x \<Rightarrow>
                    (case scan_string ds of None \<Rightarrow> None | Some (s, r) \<Rightarrow> Some (x # s, r))))
      else if of_char c < (0x20 :: nat) then None
      else (case scan_string cs of None \<Rightarrow> None | Some (s, r) \<Rightarrow> Some (c # s, r)))"

definition digit_of :: "char \<Rightarrow> nat option" where
  "digit_of c = map_of (zip ''0123456789'' [0, 1, 2, 3, 4, 5, 6, 7, 8, 9]) c"

fun scan_digits :: "nat \<Rightarrow> string \<Rightarrow> nat \<times> string" where
  "scan_digits acc [] = (acc, [])"
| "scan_digits acc (c # cs) =
     (case digit_of c of None \<Rightarrow> (acc, c # cs) | Some d \<Rightarrow> scan_digits (10 * acc + d) cs)"

text \<open>A natural number: the digit 0 alone, or a digit from 1 to 9 and the digits after it.\<close>

definition scan_nat :: "string \<Rightarrow> (nat \<times> string) option" where
  "scan_nat cs =
     (case cs of
        [] \<Rightarrow> None
      | c # r \<Rightarrow>
          (case digit_of c of
             None \<Rightarrow> None
           | Some d \<Rightarrow> if d = 0 then Some (0, r) else Some (scan_digits d r)))"

text \<open>An integer; one that goes on as a float (a fraction or an exponent) is none.\<close>

definition scan_int :: "string \<Rightarrow> (int \<times> string) option" where
  "scan_int cs =
     (case (case cs of
              [] \<Rightarrow> None
            | c # r \<Rightarrow>
                if c = CHR ''-'' then
                  (case scan_nat r of None \<Rightarrow> None | Some (n, r') \<Rightarrow> Some (- int n, r'))
                else (case scan_nat cs of None \<Rightarrow> None | Some (n, r') \<Rightarrow> Some (int n, r'))) of
        None \<Rightarrow> None
      | Some (i, r') \<Rightarrow>
          (case r' of
             [] \<Rightarrow> Some (i, r')
           | x # _ \<Rightarrow> if x = CHR ''.'' \<or> x = CHR ''e'' \<or> x = CHR ''E'' then None
                      else Some (i, r')))"

fun parse_value :: "nat \<Rightarrow> string \<Rightarrow> (pyval \<times> string) option"
  and parse_items :: "nat \<Rightarrow> string \<Rightarrow> (pyval list \<times> string) option"
  and parse_members :: "nat \<Rightarrow> string \<Rightarrow> ((string \<times> pyval) list \<times> string) option" where
  "parse_value 0 cs = None"
| "parse_value (Suc n) cs =
     (case skip_ws cs of
        [] \<Rightarrow> None
      | c # r \<Rightarrow>
          if c = CHR ''{'' then
            (case skip_ws r of
               [] \<Rightarrow> None
             | d # r' \<Rightarrow>
                 if d = CHR ''}'' then Some (VDict [], r')
                 else (case parse_members n (d # r') of
                         None \<Rightarrow> None
                       | Some (kvs, r'') \<Rightarrow> Some (VDict (dict_update [] kvs), r'')))
          else if c = CHR ''['' then
            (case skip_ws r of
               [] \<Rightarrow> None
             | d # r' \<Rightarrow>
                 if d = CHR '']'' then Some (VList [], r')
                 else (case parse_items n (d # r') of
                         None \<Rightarrow> None
                       | Some (xs, r'') \<Rightarrow> Some (VList xs, r'')))
          else if c = CHR 0x22 then
            (case scan_string r of None \<Rightarrow> None | Some (s, r') \<Rightarrow> Some (VStr s, r'))
          else if take 4 (c # r) = ''null'' then Some (VNone, drop 4 (c # r))
          else if take 4 (c # r) = ''true'' then Some (VBool True, drop 4 (c # r))
          else if take 5 (c # r) = ''false'' then Some (VBool False, drop 5 (c # r))
          else (case scan_int (c # r) of None \<Rightarrow> None | Some (i, r') \<Rightarrow> Some (VInt i, r')))"
| "parse_items 0 cs = None"
| "parse_items (Suc n) cs =
     (case parse_value n cs of
        None \<Rightarrow> None
      | Some (v, r) \<Rightarrow>
          (case skip_ws r of
             [] \<Rightarrow> None
           | c # r' \<Rightarrow>
               if c = CHR '']'' then Some ([v], r')
               else if c = CHR '','' then
                 (case parse_items n r' of None \<Rightarrow> None | Some (vs, r'') \<Rightarrow> Some (v # vs, r''))
               else None))"
| "parse_members 0 cs = None"
| "parse_members (Suc n) cs =
     (case skip_ws cs of
        [] \<Rightarrow> None
      | q # r \<Rightarrow>
          if q \<noteq> CHR 0x22 then None
          else (case scan_string r of
                  None \<Rightarrow> None
                | Some (k, r1) \<Rightarrow>
                    (case skip_ws r1 of
                       [] \<Rightarrow> None
                     | c # r2 \<Rightarrow>
                         if c \<noteq> CHR '':'' then None
                         else (case parse_value n r2 of
                                 None \<Rightarrow> None
                               | Some (v, r3) \<Rightarrow>
                                   (case skip_ws r3 of
                                      [] \<Rightarrow> None
                                    | e # r4 \<Rightarrow>
                                        if e = CHR ''}'' then Some ([(k, v)], r4)
                                        else if e = CHR '','' then
                                          (case parse_members n r4 of
                                             None \<Rightarrow> None
                                           | Some (kvs, r5) \<Rightarrow> Some ((k, v) # kvs, r5))
                                        else None)))))"

text \<open>The text is one value, with white space around it at most; its length is fuel enough
  for the descent.\<close>

definition json_loads :: "string \<Rightarrow> pyval option" where
  "json_loads s =
     (case parse_value (Suc (length s)) s of
        None \<Rightarrow> None
      | Some (v, r) \<Rightarrow> if skip_ws r = [] then Some v else None)"

text \<open>The encoding of one character of a string, of its inside, and of the string.\<close>

definition hex_digit :: "nat \<Rightarrow> char" where
  "hex_digit d = ''0123456789abcdef'' ! d"

definition escape_char :: "char \<Rightarrow> string" where
  "escape_char c =
     (if c = CHR 0x22 then [CHR 0x5C, CHR 0x22]
      else if c = CHR 0x5C then [CHR 0x5C, CHR 0x5C]
      else if c = CHR 0x0A then [CHR 0x5C, CHR ''n'']
      else if c = CHR 0x0D then [CHR 0x5C, CHR ''r'']
      else if c = CHR 0x09 then [CHR 0x5C, CHR ''t'']
      else if c = CHR 0x08 then [CHR 0x5C, CHR ''b'']
      else if c = CHR 0x0C then [CHR 0x5C, CHR ''f'']
      else if of_char c < (0x20 :: nat) \<or> (0x7E :: nat) < of_char c then
        [CHR 0x5C, CHR ''u'', CHR ''0'', CHR ''0'',
         hex_digit (of_char c div 16), hex_digit (of_char c mod 16)]
      else [c])"

definition escape :: "string \<Rightarrow> string" where
  "escape s = concat (map escape_char s)"

definition quote :: "string \<Rightarrow> string" where
  "quote s = CHR 0x22 # escape s @ [CHR 0x22]"

fun join :: "string \<Rightarrow> string list \<Rightarrow> string" where
  "join sep [] = []"
| "join sep [x] = x"
| "join sep (x # y # ys) = x @ sep @ join sep (y # ys)"

fun json_dumps :: "pyval \<Rightarrow> string" where
  "json_dumps VNone = ''null''"
| "json_dumps (VBool b) = (if b then ''true'' else ''false'')"
| "json_dumps (VInt i) = str_int i"
| "json_dumps (VStr s) = quote s"
| "json_dumps (VList xs) = ''['' @ join '', '' (map json_dumps xs) @ '']''"
| "json_dumps (VTuple xs) = ''['' @ join '', '' (map json_dumps xs) @ '']''"
| "json_dumps (VDict kvs) =
     ''{'' @ join '', '' (map (\<lambda>(k, v). quote k @ '': '' @ json_dumps v) kvs) @ ''}''"

text \<open>A remote that answers every request with one status and body, one that answers
  with the encoded body it received, and a client fresh from its constructor.\<close>

definition simulated_remote :: "int \<Rightarrow> string \<Rightarrow> unit \<Rightarrow> request \<Rightarrow> response \<times> unit" where
  "simulated_remote code body s r = (\<lparr>status_code = code, resp_text = body\<rparr>, s)"

definition echo_remote :: "unit \<Rightarrow> request \<Rightarrow> response \<times> unit" where
  "echo_remote s r =
     (\<lparr>status_code = 200,
       resp_text = (if req_json r = VNone then [] else json_dumps (req_json r))\<rparr>, s)"

definition simulated :: "int \<Rightarrow> string \<Rightarrow> unit environment" where
  "simulated code body =
     \<lparr>remote = simulated_remote code body, loads = json_loads, dumps = json_dumps\<rparr>"

definition echoing :: "unit environment" where
  "echoing = \<lparr>remote = echo_remote, loads = json_loads, dumps = json_dumps\<rparr>"

definition fresh :: "string \<Rightarrow> string \<Rightarrow> unit state" where
  "fresh server_arg client_arg =
     \<lparr>self = init server_arg client_arg, remote_state = (), sent = [], logged = []\<rparr>"

subsection \<open>Notions for the round trip of the reference codec\<close>

text \<open>A value that JSON can give back: no tuple in it (JSON has arrays only, which decode
  to lists), and in its dicts distinct keys, as every Python dict has.\<close>

fun well_formed :: "pyval \<Rightarrow> bool" where
  "well_formed (VList xs) = (\<forall>x \<in> set xs. well_formed x)"
| "well_formed (VTuple xs) = False"
| "well_formed (VDict kvs) = (distinct (map fst kvs) \<and> (\<forall>v \<in> snd ` set kvs. well_formed v))"
| "well_formed v = True"

text \<open>Fuel that lets the decoder read a value back.\<close>

fun need :: "pyval \<Rightarrow> nat" where
  "need (VList xs) = 1 + sum_list (map (\<lambda>x. 1 + need x) xs)"
| "need (VDict kvs) = 1 + sum_list (map (\<lambda>kv. 1 + need (snd kv)) kvs)"
| "need v = 1"

text \<open>Reading one more decimal digit.\<close>

definition step :: "nat \<Rightarrow> char \<Rightarrow> nat" where
  "step a c = 10 * a + the (digit_of c)"

text \<open>Text at which an integer ends: nothing, or a character that neither is a digit nor
  makes a float of it.\<close>

definition stops :: "string \<Rightarrow> bool" where
  "stops r =
     (case r of
        [] \<Rightarrow> True
      | c # _ \<Rightarrow> digit_of c = None \<and> c \<noteq> CHR ''.'' \<and> c \<noteq> CHR ''e'' \<and> c \<noteq> CHR ''E'')"

text \<open>A character that is neither white space nor a closing bracket.\<close>

definition plain :: "char \<Rightarrow> bool" where
  "plain c = (c \<noteq> CHR '' '' \<and> c \<noteq> CHR 0x09 \<and> c \<noteq> CHR 0x0A \<and> c \<noteq> CHR 0x0D
              \<and> c \<noteq> CHR '']'' \<and> c \<noteq> CHR ''}'')"

text \<open>Text that may follow an encoded value without running into it.\<close>

definition follows :: "pyval \<Rightarrow> string \<Rightarrow> bool" where
  "follows v r = (case v of VInt i \<Rightarrow> stops r | _ \<Rightarrow> True)"

text \<open>One encoded member of a dict.\<close>

definition member_text :: "string \<times> pyval \<Rightarrow> string" where
  "member_text kv = quote (fst kv) @ '': '' @ json_dumps (snd kv)"

section \<open>Facts about the request helpers\<close>

lemma send_unfold:
  "send E action path addl_headers body auth st =
     (let r = http_request (self st) action path addl_headers body auth;
          resp = fst (remote E (remote_state st) r);
          st' = st\<lparr>remote_state := snd (remote E (remote_state st) r), sent := sent st @ [r]\<rparr>
      in if status_code resp \<noteq> 200 then
           (Inl (Exit 1), st'\<lparr>logged := logged st @ [(ERROR, failure_message path resp)]\<rparr>)
         else if resp_text resp \<noteq> [] then
           (case loads E (resp_text resp) of
              None \<Rightarrow> (Inl JSONDecodeError, st')
            | Some v \<Rightarrow> (Inr v, st'))
         else (Inr VNone, st'))"
  by (simp add: send_def session_request_def http_request_def Let_def case_prod_beta)

lemma send_sent:
  "sent (snd (send E action path addl_headers body auth st)) =
     sent st @ [http_request (self st) action path addl_headers body auth]"
  by (simp add: send_unfold Let_def split: option.splits)

lemma send_self: "self (snd (send E action path addl_headers body auth st)) = self st"
  by (simp add: send_unfold Let_def split: option.splits)

text \<open>The two branches of \<^verbatim>\<open>_send_with_priv_id\<close>.\<close>

lemma send_with_priv_id_token:
  "p \<noteq> [] \<Longrightarrow>
   send_with_priv_id E action path (Some p) body st =
     send E action path (Some [(''Authorization'', ''ID '' @ p)]) body None st"
  by (simp add: send_with_priv_id_def)

lemma send_with_priv_id_no_token:
  "priv_id = None \<or> priv_id = Some [] \<Longrightarrow>
   send_with_priv_id E action path priv_id body st = send E action path None body None st"
  by (auto simp: send_with_priv_id_def)

lemma send_with_priv_id_sent:
  "sent (snd (send_with_priv_id E action path priv_id body st)) =
     sent st @ [http_request (self st) action path
                  (case priv_id of
                     None \<Rightarrow> None
                   | Some p \<Rightarrow> if p \<noteq> [] then Some [(''Authorization'', ''ID '' @ p)] else None)
                  body None]"
  by (simp add: send_with_priv_id_def send_sent)

lemma send_with_priv_id_self:
  "self (snd (send_with_priv_id E action path priv_id body st)) = self st"
  by (simp add: send_with_priv_id_def send_self)

text \<open>The headers of a request: the two base headers, then the token's header.\<close>

lemma merged_headers_None: "merged_headers None = base_headers"
  by (simp add: merged_headers_def)

lemma merged_headers_token:
  "merged_headers (Some [(''Authorization'', v)]) =
     [(''Content-Type'', ''application/json''), (''Content-Accept'', ''application/json''),
      (''Authorization'', v)]"
  by (simp add: merged_headers_def base_headers_def dict_update_def)

text \<open>Extra headers are merged on top of the base: a key of the extra headers takes the
  extra value, every other key keeps the base's.\<close>

lemma map_of_dict_update:
  "distinct (map fst e) \<Longrightarrow>
   map_of (dict_update d e) k = (case map_of e k of Some v \<Rightarrow> Some v | None \<Rightarrow> map_of d k)"
proof (induction e arbitrary: d)
  case Nil
  then show ?case by (simp add: dict_update_def)
next
  case (Cons kv e)
  obtain k' v' where kv: "kv = (k', v')" by (cases kv)
  from Cons.prems kv have d: "distinct (map fst e)" and nin: "k' \<notin> fst ` set e" by auto
  have "dict_update d (kv # e) = dict_update (AList.update k' v' d) e"
    by (simp add: dict_update_def kv)
  moreover have "map_of e k' = None" using nin by (simp add: map_of_eq_None_iff)
  ultimately show ?case
    using Cons.IH [OF d, of "AList.update k' v' d"]
    by (auto simp: kv update_conv' split: option.splits)
qed

lemma merged_headers_lookup:
  "distinct (map fst ah) \<Longrightarrow>
   map_of (merged_headers (Some ah)) k =
     (case map_of ah k of Some v \<Rightarrow> Some v | None \<Rightarrow> map_of base_headers k)"
  by (cases ah) (simp_all add: merged_headers_def map_of_dict_update del: distinct.simps)

text \<open>A method that projects a field out of the response leaves the state of the call
  it wraps.\<close>

lemma snd_project:
  "snd (case x of (Inl e, s) \<Rightarrow> (Inl e, s) | (Inr v, s) \<Rightarrow> (f v, s)) = snd x"
  by (cases x; cases "fst x") auto

lemma fst_project:
  "fst (case x of (Inl e, s) \<Rightarrow> (Inl e, s) | (Inr v, s) \<Rightarrow> (f v, s)) =
     (case fst x of Inl e \<Rightarrow> Inl e | Inr v \<Rightarrow> f v)"
  by (cases x; cases "fst x") auto

text \<open>The simulated remotes.\<close>

lemma simulated_answer:
  "fst (remote (simulated code body) s r) = \<lparr>status_code = code, resp_text = body\<rparr>"
  by (simp add: simulated_def simulated_remote_def)

lemma simulated_codec:
  "loads (simulated code body) = json_loads" "dumps (simulated code body) = json_dumps"
  by (simp_all add: simulated_def)

lemma send_answers:
  "answers E st (http_request (self st) action path addl_headers body auth) v \<Longrightarrow>
   fst (send E action path addl_headers body auth st) = Inr v"
  by (simp add: answers_def send_unfold Let_def)

text \<open>Every operation leaves the client object as it is and makes one request, on the
  client's session.\<close>

lemma perform_self: "self (snd (perform E c st)) = self st"
  by (cases c)
     (simp_all add: snd_project send_self send_with_priv_id_self put_metadata_def
        get_private_id_def get_public_id_def create_asset_def get_asset_status_def
        get_asset_by_id_def get_asset_by_hash_def update_asset_def transfer_asset_def
        query_def map_reduce_def create_consent_def Let_def)

lemma perform_sent:
  "\<exists>r. sent (snd (perform E c st)) = sent st @ [r] \<and> req_session r = session (self st)"
  by (cases c)
     (simp_all add: snd_project send_sent send_with_priv_id_sent put_metadata_def
        get_private_id_def get_public_id_def create_asset_def get_asset_status_def
        get_asset_by_id_def get_asset_by_hash_def update_asset_def transfer_asset_def
        query_def map_reduce_def create_consent_def Let_def http_request_def)

lemma run_self: "self (snd (run E cs st)) = self st"
proof (induction cs arbitrary: st)
  case Nil
  show ?case by simp
next
  case (Cons c cs)
  obtain res st' where p: "perform E c st = (res, st')" by (cases "perform E c st")
  have st': "self st' = self st" using perform_self [of E c st] by (simp add: p)
  show ?case
  proof (cases res)
    case (Inl e)
    then show ?thesis by (simp add: p st')
  next
    case (Inr v)
    then show ?thesis using Cons.IH [of st'] by (simp add: p st')
  qed
qed

lemma run_sessions:
  assumes "list_all (\<lambda>r. req_session r = session (self st)) (sent st)"
  shows "list_all (\<lambda>r. req_session r = session (self st)) (sent (snd (run E cs st)))"
  using assms
proof (induction cs arbitrary: st)
  case Nil
  then show ?case by simp
next
  case (Cons c cs)
  obtain res st' where p: "perform E c st = (res, st')" by (cases "perform E c st")
  have self': "self st' = self st" using perform_self [of E c st] by (simp add: p)
  obtain r where r: "sent st' = sent st @ [r]" "req_session r = session (self st)"
    using perform_sent [of E c st] by (auto simp: p)
  have inv': "list_all (\<lambda>r. req_session r = session (self st')) (sent st')"
    using Cons.prems r by (simp add: self')
  show ?case
  proof (cases res)
    case (Inl e)
    then show ?thesis using inv' by (simp add: p self')
  next
    case (Inr v)
    then show ?thesis using Cons.IH [OF inv'] by (simp add: p self')
  qed
qed

text \<open>On a session that trusts its environment, the credential file would be used.\<close>

lemma trusting_session_reads_netrc:
  "credentials_used (\<lambda>url. Some (''robot'', ''hunter2''))
     \<lparr>req_session = \<lparr>trust_env = True\<rparr>, req_action = ''GET'', req_url = ''https://host/'',
      req_headers = [], req_json = VNone, req_auth = None\<rparr> = Some (''robot'', ''hunter2'')"
  by (simp add: credentials_used_def)

text \<open>The request of \<^verbatim>\<open>_send_with_priv_id\<close> for any token, and its result when the remote
  answers with a JSON body.\<close>

lemma send_with_priv_id_request:
  "http_request c action path
     (case priv_id of
        None \<Rightarrow> None
      | Some p \<Rightarrow> if p \<noteq> [] then Some [(''Authorization'', ''ID '' @ p)] else None)
     body None =
   \<lparr>req_session = session c, req_action = action, req_url = server c @ path,
    req_headers =
      [(''Content-Type'', ''application/json''), (''Content-Accept'', ''application/json'')]
        @ (case priv_id of
             None \<Rightarrow> []
           | Some p \<Rightarrow> if p = [] then [] else [(''Authorization'', ''ID '' @ p)]),
    req_json = body, req_auth = None\<rparr>"
  by (simp add: http_request_def merged_headers_def base_headers_def dict_update_def
        split: option.splits)

lemma send_with_priv_id_answers:
  "answers E st
     (http_request (self st) action path
        (case priv_id of
           None \<Rightarrow> None
         | Some p \<Rightarrow> if p \<noteq> [] then Some [(''Authorization'', ''ID '' @ p)] else None)
        body None) v \<Longrightarrow>
   fst (send_with_priv_id E action path priv_id body st) = Inr v"
  by (simp add: send_with_priv_id_def send_answers)


section \<open>The reference codec gives back what it encodes\<close>

text \<open>Numbers first, then strings, then the values: the decoder, given fuel enough, reads
  an encoded value back, whatever follows it; and the length of the text is fuel enough.\<close>

lemma digit_of_digit: "d < 10 \<Longrightarrow> digit_of (''0123456789'' ! d) = Some d"
proof -
  assume "d < 10"
  then consider "d = 0" | "d = 1" | "d = 2" | "d = 3" | "d = 4" | "d = 5" | "d = 6" | "d = 7"
    | "d = 8" | "d = 9"
    by (auto simp: less_Suc_eq numeral_eq_Suc)
  then show ?thesis by cases (simp_all add: digit_of_def)
qed

lemma scan_digits_append:
  "list_all (\<lambda>c. digit_of c \<noteq> None) xs \<Longrightarrow>
   scan_digits acc (xs @ r) = scan_digits (foldl step acc xs) r"
  by (induction xs arbitrary: acc) (auto simp: step_def)

lemma str_nat_digits: "list_all (\<lambda>c. digit_of c \<noteq> None) (str_nat n)"
proof (induction n rule: str_nat.induct)
  case (1 n)
  show ?case
  proof (cases "n < 10")
    case True
    then show ?thesis by (subst str_nat.simps) (simp add: digit_of_digit)
  next
    case False
    then have "n mod 10 < 10" by simp
    with False 1 show ?thesis by (subst str_nat.simps) (simp add: digit_of_digit)
  qed
qed

lemma str_nat_value: "foldl step 0 (str_nat n) = n"
proof (induction n rule: str_nat.induct)
  case (1 n)
  show ?case
  proof (cases "n < 10")
    case True
    then show ?thesis by (subst str_nat.simps) (simp add: digit_of_digit step_def)
  next
    case False
    then have "n mod 10 < 10" by simp
    with False 1 have "foldl step 0 (str_nat n) = step (n div 10) (''0123456789'' ! (n mod 10))"
      by (subst str_nat.simps) simp
    also have "\<dots> = 10 * (n div 10) + n mod 10"
      using \<open>n mod 10 < 10\<close> by (simp add: step_def digit_of_digit)
    finally show ?thesis by simp
  qed
qed

lemma str_nat_ne: "str_nat n \<noteq> []"
  by (subst str_nat.simps) simp

lemma scan_digits_stop: "stops r \<Longrightarrow> scan_digits acc r = (acc, r)"
  by (cases r) (auto simp: stops_def)

lemma scan_digits_str_nat: "stops r \<Longrightarrow> scan_digits 0 (str_nat n @ r) = (n, r)"
  using scan_digits_append [OF str_nat_digits, of 0 n r]
  by (simp add: str_nat_value scan_digits_stop)

lemma hd_str_nat_digit: "\<exists>c cs. str_nat n = c # cs \<and> digit_of c \<noteq> None"
  using str_nat_digits [of n] str_nat_ne [of n] by (cases "str_nat n") auto

lemma str_nat_hd:
  "\<exists>c cs d. str_nat n = c # cs \<and> digit_of c = Some d \<and> (d = 0 \<longrightarrow> n = 0 \<and> cs = [])"
proof (induction n rule: str_nat.induct)
  case (1 n)
  show ?case
  proof (cases "n < 10")
    case True
    then show ?thesis by (subst str_nat.simps) (simp add: digit_of_digit)
  next
    case False
    then obtain c cs d where "str_nat (n div 10) = c # cs" "digit_of c = Some d"
      "d = 0 \<longrightarrow> n div 10 = 0 \<and> cs = []"
      using 1 by blast
    moreover have "n div 10 \<noteq> 0" using False by simp
    ultimately show ?thesis using False by (subst str_nat.simps) simp
  qed
qed

lemma scan_nat_str_nat: "stops r \<Longrightarrow> scan_nat (str_nat n @ r) = Some (n, r)"
proof -
  assume r: "stops r"
  obtain c cs d where c: "str_nat n = c # cs" "digit_of c = Some d"
    "d = 0 \<longrightarrow> n = 0 \<and> cs = []"
    using str_nat_hd by blast
  have all: "scan_digits 0 (str_nat n @ r) = (n, r)"
    using r by (rule scan_digits_str_nat)
  show ?thesis
  proof (cases "d = 0")
    case True
    then show ?thesis using c by (simp add: scan_nat_def)
  next
    case False
    then show ?thesis using c all by (simp add: scan_nat_def)
  qed
qed

lemma scan_int_str_int: "stops r \<Longrightarrow> scan_int (str_int i @ r) = Some (i, r)"
proof -
  assume r: "stops r"
  have tail: "(case r of [] \<Rightarrow> Some (i, r)
               | x # _ \<Rightarrow> if x = CHR ''.'' \<or> x = CHR ''e'' \<or> x = CHR ''E'' then None
                          else Some (i, r)) = Some (i, r)"
    using r by (cases r) (auto simp: stops_def)
  show ?thesis
  proof (cases "i < 0")
    case True
    have "scan_nat (str_nat (nat (- i)) @ r) = Some (nat (- i), r)"
      using r by (rule scan_nat_str_nat)
    then show ?thesis using True tail by (simp add: scan_int_def str_int_def)
  next
    case False
    obtain c cs where c: "str_nat (nat i) = c # cs" "digit_of c \<noteq> None"
      using hd_str_nat_digit by blast
    have d: "scan_nat (str_nat (nat i) @ r) = Some (nat i, r)"
      using r by (rule scan_nat_str_nat)
    have "c \<noteq> CHR ''-''" using c(2) by (auto simp: digit_of_def)
    then show ?thesis using False c d tail by (simp add: scan_int_def str_int_def)
  qed
qed

lemma quote_escape: "quote s = CHR 0x22 # escape s @ [CHR 0x22]"
  by (simp add: quote_def)

lemma hex_of_hex_digit: "d < 16 \<Longrightarrow> hex_of (hex_digit d) = Some d"
proof -
  assume "d < 16"
  then consider "d = 0" | "d = 1" | "d = 2" | "d = 3" | "d = 4" | "d = 5" | "d = 6" | "d = 7"
    | "d = 8" | "d = 9" | "d = 10" | "d = 11" | "d = 12" | "d = 13" | "d = 14" | "d = 15"
    by (auto simp: less_Suc_eq numeral_eq_Suc)
  then show ?thesis by cases (simp_all add: hex_of_def hex_digit_def)
qed

lemma hex4_of_char:
  "hex4 (CHR ''0'') (CHR ''0'') (hex_digit (of_char c div 16)) (hex_digit (of_char c mod 16))
     = Some (of_char c)"
proof -
  have "(of_char c :: nat) < 256" by simp
  then have "(of_char c :: nat) div 16 < 16" by (simp add: less_mult_imp_div_less)
  moreover have "(of_char c :: nat) mod 16 < 16" by simp
  moreover have "hex_of (CHR ''0'') = Some 0" by (simp add: hex_of_def)
  ultimately show ?thesis by (simp add: hex4_def hex_of_hex_digit)
qed

lemma scan_string_escape_char:
  "scan_string t = Some (s, r) \<Longrightarrow> scan_string (escape_char c @ t) = Some (c # s, r)"
proof -
  assume t: "scan_string t = Some (s, r)"
  consider "c = CHR 0x22" | "c = CHR 0x5C" | "c = CHR 0x0A" | "c = CHR 0x0D" | "c = CHR 0x09"
    | "c = CHR 0x08" | "c = CHR 0x0C"
    | "c \<noteq> CHR 0x22" "c \<noteq> CHR 0x5C" "c \<noteq> CHR 0x0A" "c \<noteq> CHR 0x0D" "c \<noteq> CHR 0x09"
      "c \<noteq> CHR 0x08" "c \<noteq> CHR 0x0C" "of_char c < (0x20 :: nat) \<or> (0x7E :: nat) < of_char c"
    | "c \<noteq> CHR 0x22" "c \<noteq> CHR 0x5C" "\<not> of_char c < (0x20 :: nat)"
      "\<not> (0x7E :: nat) < of_char c" "c \<noteq> CHR 0x0A" "c \<noteq> CHR 0x0D" "c \<noteq> CHR 0x09"
      "c \<noteq> CHR 0x08" "c \<noteq> CHR 0x0C"
    by blast
  then show ?thesis
  proof cases
    case 8
    have "escape_char c @ t =
            CHR 0x5C # CHR ''u'' # CHR ''0'' # CHR ''0'' # hex_digit (of_char c div 16)
              # hex_digit (of_char c mod 16) # t"
      using 8 by (simp add: escape_char_def)
    then show ?thesis using t by (simp add: hex4_of_char)
  next
    case 9
    then show ?thesis using t by (simp add: escape_char_def)
  qed (simp_all add: escape_char_def unescape_def t)
qed

lemma scan_string_escape: "scan_string (escape s @ CHR 0x22 # r) = Some (s, r)"
  by (induction s) (simp_all add: escape_def scan_string_escape_char)

lemma digit_char: "digit_of c \<noteq> None \<Longrightarrow> c \<in> set ''0123456789''"
  by (auto simp: digit_of_def split: if_splits)

lemma digit_plain:
  "digit_of c \<noteq> None \<Longrightarrow>
   plain c \<and> c \<noteq> CHR ''{'' \<and> c \<noteq> CHR ''['' \<and> c \<noteq> CHR 0x22 \<and> c \<noteq> CHR ''-''
     \<and> c \<noteq> CHR ''n'' \<and> c \<noteq> CHR ''t'' \<and> c \<noteq> CHR ''f''"
  by (auto simp: digit_of_def plain_def split: if_splits)

lemma str_int_hd:
  "\<exists>c cs. str_int i = c # cs \<and> plain c \<and> c \<noteq> CHR ''{'' \<and> c \<noteq> CHR ''['' \<and> c \<noteq> CHR 0x22
     \<and> c \<noteq> CHR ''n'' \<and> c \<noteq> CHR ''t'' \<and> c \<noteq> CHR ''f''"
proof (cases "i < 0")
  case True
  then show ?thesis by (simp add: str_int_def plain_def)
next
  case False
  obtain c cs where "str_nat (nat i) = c # cs" "digit_of c \<noteq> None"
    using hd_str_nat_digit by blast
  then show ?thesis using False digit_plain [of c] by (simp add: str_int_def)
qed

lemma json_dumps_hd: "\<exists>c cs. json_dumps v = c # cs \<and> plain c"
proof (cases v)
  case (VInt i)
  then show ?thesis using str_int_hd [of i] by auto
qed (auto simp: quote_def plain_def)

lemma parse_value_space: "parse_value n (CHR '' '' # cs) = parse_value n cs"
  by (cases n) simp_all

lemma parse_items_space: "parse_items n (CHR '' '' # cs) = parse_items n cs"
  by (cases n) (simp_all add: parse_value_space)

lemma parse_members_space: "parse_members n (CHR '' '' # cs) = parse_members n cs"
  by (cases n) simp_all

lemma update_fresh: "k \<notin> fst ` set d \<Longrightarrow> AList.update k v d = d @ [(k, v)]"
  by (induction d) auto

lemma dict_update_distinct:
  "distinct (map fst (d @ e)) \<Longrightarrow> dict_update d e = d @ e"
proof (induction e arbitrary: d)
  case Nil
  then show ?case by (simp add: dict_update_def)
next
  case (Cons kv e)
  obtain k v where kv: "kv = (k, v)" by (cases kv)
  have "k \<notin> fst ` set d" using Cons.prems kv by auto
  then have u: "AList.update k v d = d @ [(k, v)]" by (rule update_fresh)
  have "dict_update d (kv # e) = dict_update (d @ [(k, v)]) e"
    by (simp add: dict_update_def kv u)
  also have "\<dots> = (d @ [(k, v)]) @ e"
    using Cons.prems kv by (intro Cons.IH) simp
  finally show ?case by (simp add: kv)
qed

lemma follows_sep [simp]:
  "follows v (CHR '']'' # r)" "follows v (CHR ''}'' # r)" "follows v (CHR '','' # r)"
  "follows v []"
  by (simp_all add: follows_def stops_def digit_of_def split: pyval.splits)

lemma parse_items_dumps:
  assumes "xs \<noteq> []"
    and "\<And>x n r. x \<in> set xs \<Longrightarrow> need x \<le> n \<Longrightarrow> follows x r \<Longrightarrow>
           parse_value n (json_dumps x @ r) = Some (x, r)"
    and "sum_list (map (\<lambda>x. 1 + need x) xs) \<le> n"
  shows "parse_items n (join '', '' (map json_dumps xs) @ CHR '']'' # r) = Some (xs, r)"
  using assms
proof (induction xs arbitrary: n)
  case Nil
  then show ?case by simp
next
  case (Cons x xs)
  from Cons.prems(3) obtain m where n: "n = Suc m" and m: "need x \<le> m"
    and rest: "sum_list (map (\<lambda>x. 1 + need x) xs) \<le> m"
    by (cases n) auto
  show ?case
  proof (cases "xs = []")
    case True
    have "parse_value m (json_dumps x @ CHR '']'' # r) = Some (x, CHR '']'' # r)"
      using Cons.prems(2) [of x m "CHR '']'' # r"] m by simp
    then show ?thesis by (simp add: n True)
  next
    case False
    then obtain y ys where split: "xs = y # ys" by (cases xs) auto
    let ?tail = "join '', '' (map json_dumps xs) @ CHR '']'' # r"
    have 1: "parse_value m (json_dumps x @ CHR '','' # CHR '' '' # ?tail)
               = Some (x, CHR '','' # CHR '' '' # ?tail)"
      using Cons.prems(2) [of x m "CHR '','' # CHR '' '' # ?tail"] m by simp
    have 2: "parse_items m ?tail = Some (xs, r)"
      using Cons.prems(2) rest False by (intro Cons.IH) simp_all
    show ?thesis using 1 2 by (simp add: n split parse_items_space)
  qed
qed

lemma json_dumps_dict: "json_dumps (VDict kvs) = ''{'' @ join '', '' (map member_text kvs) @ ''}''"
proof -
  have "(\<lambda>(k, v). quote k @ '': '' @ json_dumps v) = member_text"
    by (auto simp: member_text_def fun_eq_iff)
  then show ?thesis by simp
qed

lemma parse_members_dumps:
  assumes "kvs \<noteq> []"
    and "\<And>kv n r. kv \<in> set kvs \<Longrightarrow> need (snd kv) \<le> n \<Longrightarrow> follows (snd kv) r \<Longrightarrow>
           parse_value n (json_dumps (snd kv) @ r) = Some (snd kv, r)"
    and "sum_list (map (\<lambda>kv. 1 + need (snd kv)) kvs) \<le> n"
  shows "parse_members n (join '', '' (map member_text kvs) @ CHR ''}'' # r) = Some (kvs, r)"
  using assms
proof (induction kvs arbitrary: n)
  case Nil
  then show ?case by simp
next
  case (Cons kv kvs)
  obtain k v where kv: "kv = (k, v)" by (cases kv)
  from Cons.prems(3) obtain m where n: "n = Suc m" and m: "need v \<le> m"
    and rest: "sum_list (map (\<lambda>kv. 1 + need (snd kv)) kvs) \<le> m"
    by (cases n) (auto simp: kv)
  have key: "scan_string (escape k @ CHR 0x22 # t) = Some (k, t)" for t
    by (rule scan_string_escape)
  show ?case
  proof (cases "kvs = []")
    case True
    have "parse_value m (json_dumps v @ CHR ''}'' # r) = Some (v, CHR ''}'' # r)"
      using Cons.prems(2) [of kv m "CHR ''}'' # r"] m by (simp add: kv)
    then show ?thesis
      by (simp add: n True kv member_text_def quote_escape key parse_value_space)
  next
    case False
    then obtain kv' kvs' where split: "kvs = kv' # kvs'" by (cases kvs) auto
    let ?tail = "join '', '' (map member_text kvs) @ CHR ''}'' # r"
    have 1: "parse_value m (json_dumps v @ CHR '','' # CHR '' '' # ?tail)
               = Some (v, CHR '','' # CHR '' '' # ?tail)"
      using Cons.prems(2) [of kv m "CHR '','' # CHR '' '' # ?tail"] m by (simp add: kv)
    have 2: "parse_members m ?tail = Some (kvs, r)"
      using Cons.prems(2) rest False by (intro Cons.IH) simp_all
    have "join '', '' (map member_text (kv # kvs)) @ CHR ''}'' # r
            = member_text kv @ CHR '','' # CHR '' '' # ?tail"
      by (simp add: split)
    moreover have "member_text kv = CHR 0x22 # escape k @ CHR 0x22 # CHR '':'' # CHR '' ''
                                 # json_dumps v"
      by (simp add: member_text_def kv quote_escape)
    ultimately have whole: "join '', '' (map member_text (kv # kvs)) @ CHR ''}'' # r
            = CHR 0x22 # escape k @ CHR 0x22 # CHR '':'' # CHR '' ''
                # json_dumps v @ CHR '','' # CHR '' '' # ?tail"
      by simp
    show ?thesis
      by (subst whole) (simp add: n key parse_value_space parse_members_space 1 2 kv)
  qed
qed

lemma parse_value_dumps:
  "well_formed v \<Longrightarrow> need v \<le> n \<Longrightarrow> follows v r \<Longrightarrow> parse_value n (json_dumps v @ r) = Some (v, r)"
proof (induction v arbitrary: n r)
  case VNone
  then obtain m where "n = Suc m" by (cases n) auto
  then show ?case by simp
next
  case (VBool b)
  then obtain m where "n = Suc m" by (cases n) auto
  then show ?case by simp
next
  case (VInt i)
  then obtain m where n: "n = Suc m" by (cases n) auto
  obtain c cs where c: "str_int i = c # cs" and p: "plain c"
    and o: "c \<noteq> CHR ''{''" "c \<noteq> CHR ''[''" "c \<noteq> CHR 0x22"
           "c \<noteq> CHR ''n''" "c \<noteq> CHR ''t''" "c \<noteq> CHR ''f''"
    using str_int_hd by blast
  have "scan_int (c # cs @ r) = Some (i, r)"
    using scan_int_str_int [of r i] VInt.prems(3) by (simp add: follows_def c)
  then show ?case using p o by (simp add: n c plain_def)
next
  case (VStr s)
  then obtain m where "n = Suc m" by (cases n) auto
  then show ?case by (simp add: quote_escape scan_string_escape)
next
  case (VList xs)
  from VList.prems(2) obtain m where n: "n = Suc m"
    and m: "sum_list (map (\<lambda>x. 1 + need x) xs) \<le> m"
    by (cases n) auto
  show ?case
  proof (cases "xs = []")
    case True
    then show ?thesis by (simp add: n)
  next
    case False
    then obtain y ys where split: "xs = y # ys" by (cases xs) auto
    obtain c cs where c: "json_dumps y = c # cs" "plain c"
      using json_dumps_hd by blast
    let ?json = "join '', '' (map json_dumps xs) @ CHR '']'' # r"
    have hd: "\<exists>t. ?json = c # t"
      using c(1) by (cases ys) (simp_all add: split)
    then obtain t where t: "?json = c # t" by blast
    have items: "parse_items m ?json = Some (xs, r)"
      using False m VList.prems(1) by (intro parse_items_dumps VList.IH) auto
    have "parse_value (Suc m) (CHR ''['' # ?json) = Some (VList xs, r)"
      using items c(2) unfolding t by (simp add: plain_def del: parse_items.simps)
    then show ?thesis by (simp add: n)
  qed
next
  case (VTuple xs)
  then show ?case by simp
next
  case (VDict kvs)
  from VDict.prems(2) obtain m where n: "n = Suc m"
    and m: "sum_list (map (\<lambda>kv. 1 + need (snd kv)) kvs) \<le> m"
    by (cases n) auto
  have d: "dict_update [] kvs = kvs"
    using VDict.prems(1) dict_update_distinct [of "[]" kvs] by simp
  show ?case
  proof (cases "kvs = []")
    case True
    then show ?thesis by (simp add: n)
  next
    case False
    then obtain kv kvs' where split: "kvs = kv # kvs'" by (cases kvs) auto
    let ?json = "join '', '' (map member_text kvs) @ CHR ''}'' # r"
    have "\<exists>t. ?json = CHR 0x22 # t"
      by (cases kvs') (simp_all add: split member_text_def quote_escape)
    then obtain t where t: "?json = CHR 0x22 # t" by blast
    have members: "parse_members m ?json = Some (kvs, r)"
    proof (rule parse_members_dumps [OF False _ m])
      fix kv n r
      assume "kv \<in> set kvs" "need (snd kv) \<le> n" "follows (snd kv) r"
      moreover have "well_formed (snd kv)" using VDict.prems(1) \<open>kv \<in> set kvs\<close> by auto
      moreover have "snd kv \<in> Basic_BNFs.snds kv" by (cases kv) simp
      ultimately show "parse_value n (json_dumps (snd kv) @ r) = Some (snd kv, r)"
        by (intro VDict.IH)
    qed
    have "parse_value (Suc m) (CHR ''{'' # ?json) = Some (VDict kvs, r)"
      using members d unfolding t by (simp del: parse_members.simps)
    then show ?thesis by (simp add: n json_dumps_dict del: json_dumps.simps)
  qed
qed

lemma sum_need_le_join:
  assumes "\<And>x. x \<in> set xs \<Longrightarrow> f x \<le> length (g x)"
  shows "sum_list (map (\<lambda>x. 1 + f x) xs) \<le> 1 + length (join '', '' (map g xs))"
  using assms
proof (induction xs)
  case Nil
  then show ?case by simp
next
  case (Cons x xs)
  have x: "f x \<le> length (g x)" using Cons.prems by simp
  show ?case
  proof (cases "xs = []")
    case True
    then show ?thesis using x by simp
  next
    case False
    then obtain y ys where split: "xs = y # ys" by (cases xs) auto
    have "sum_list (map (\<lambda>x. 1 + f x) xs) \<le> 1 + length (join '', '' (map g xs))"
      using Cons.prems by (intro Cons.IH) simp
    moreover have "length (join '', '' (map g (x # xs)))
                     = length (g x) + 2 + length (join '', '' (map g xs))"
      by (simp add: split)
    ultimately show ?thesis using x by simp
  qed
qed

lemma need_le_length: "need v \<le> length (json_dumps v)"
proof (induction v)
  case (VInt i)
  obtain c cs where "str_int i = c # cs" using str_int_hd by blast
  then show ?case by simp
next
  case (VList xs)
  have "sum_list (map (\<lambda>x. 1 + need x) xs) \<le> 1 + length (join '', '' (map json_dumps xs))"
    using VList.IH by (rule sum_need_le_join)
  then show ?case by simp
next
  case (VDict kvs)
  have "sum_list (map (\<lambda>kv. 1 + need (snd kv)) kvs)
          \<le> 1 + length (join '', '' (map member_text kvs))"
  proof (rule sum_need_le_join)
    fix kv
    assume "kv \<in> set kvs"
    moreover have "snd kv \<in> Basic_BNFs.snds kv" by (cases kv) simp
    ultimately have "need (snd kv) \<le> length (json_dumps (snd kv))" by (rule VDict.IH)
    then show "need (snd kv) \<le> length (member_text kv)" by (simp add: member_text_def)
  qed
  then show ?case by (simp add: json_dumps_dict del: json_dumps.simps)
qed (simp_all add: quote_def)

lemma json_loads_dumps: "well_formed v \<Longrightarrow> json_loads (json_dumps v) = Some v"
proof -
  assume "well_formed v"
  moreover have "need v \<le> Suc (length (json_dumps v))"
    using need_le_length [of v] by simp
  ultimately have "parse_value (Suc (length (json_dumps v))) (json_dumps v @ []) = Some (v, [])"
    by (rule parse_value_dumps) simp
  then show ?thesis by (simp add: json_loads_def)
qed

text \<open>The codec at some texts and values, as the module behaves there.\<close>

lemma json_loads_at_texts:
  \<open>json_loads ''01'' = None \<and> json_loads ''-01'' = None \<and> json_loads ''1.'' = None
   \<and> json_loads ''[1,]'' = None \<and> json_loads ''{"a":1,}'' = None \<and> json_loads ''-'' = None
   \<and> json_loads ''[] x'' = None \<and> json_loads ''nul'' = None \<and> json_loads ''truee'' = None
   \<and> json_loads [] = None \<and> json_loads [CHR 0x22, CHR 0x0A, CHR 0x22] = None
   \<and> json_loads [CHR 0x22, CHR 0x5C, CHR ''x'', CHR 0x22] = None
   \<and> json_loads '' {"a" : 1 , "a":2,"b":{}} '' = Some (VDict [(''a'', VInt 2), (''b'', VDict [])])
   \<and> json_loads ''[0, -0, 10, 7]'' = Some (VList [VInt 0, VInt 0, VInt 10, VInt 7])
   \<and> json_loads ''{ }'' = Some (VDict []) \<and> json_loads ''[ ]'' = Some (VList [])
   \<and> json_loads ''  null  '' = Some VNone
   \<and> json_loads [CHR 0x22, CHR 0x7F, CHR 0xE9, CHR 0x22] = Some (VStr [CHR 0x7F, CHR 0xE9])
   \<and> json_loads ([CHR 0x22, CHR 0x5C] @ ''u00E9'' @ [CHR 0x5C] @ ''n'' @ [CHR 0x5C] @ ''/''
                    @ [CHR 0x22]) = Some (VStr [CHR 0xE9, CHR 0x0A, CHR ''/''])\<close>
  by code_simp

lemma json_dumps_at_values:
  \<open>json_dumps (VStr [CHR 0x0A, CHR '' '', CHR ''a'', CHR 0x22, CHR 0x5C, CHR 0xE9, CHR 0x7F,
                      CHR 0x01, CHR ''~'', CHR 0x08, CHR 0x0C, CHR 0x0D, CHR 0x09, CHR ''/''])
     = [CHR 0x22, CHR 0x5C] @ ''n a'' @ [CHR 0x5C, CHR 0x22, CHR 0x5C, CHR 0x5C, CHR 0x5C]
         @ ''u00e9'' @ [CHR 0x5C] @ ''u007f'' @ [CHR 0x5C] @ ''u0001~'' @ [CHR 0x5C] @ ''b''
         @ [CHR 0x5C] @ ''f'' @ [CHR 0x5C] @ ''r'' @ [CHR 0x5C] @ ''t/'' @ [CHR 0x22]
   \<and> json_dumps (VDict [(''a'', VTuple [VInt 1, VInt 2]),
                        (''b'', VList [VBool True, VNone, VInt (- 5), VInt 0])])
       = ''{"a": [1, 2], "b": [true, null, -5, 0]}''\<close>
  by code_simp

text \<open>Against the echoing remote, \<^verbatim>\<open>put_metadata\<close> returns every dictionary it is given.\<close>

lemma put_metadata_echo:
  assumes "well_formed (VDict kvs)"
  shows "fst (put_metadata echoing (VDict kvs) username password st) = Inr (VDict kvs)"
proof -
  have "json_dumps (VDict kvs) \<noteq> []" by simp
  moreover have "json_loads (json_dumps (VDict kvs)) = Some (VDict kvs)"
    using assms by (rule json_loads_dumps)
  ultimately have "answers echoing st
      (http_request (self st) ''PUT'' ''/api/metadata/dictionary'' None (VDict kvs)
         (Some (username, password))) (VDict kvs)"
    by (simp add: answers_def echoing_def echo_remote_def http_request_def
          del: json_dumps.simps)
  then show ?thesis unfolding put_metadata_def by (rule send_answers)
qed

section \<open>The claims\<close>

text \<open>
  C1. The base headers of \<^verbatim>\<open>send\<close> are \<^verbatim>\<open>Content-Type\<close> and \<^verbatim>\<open>Content-Accept\<close>: a call
  without extra headers hands the transport exactly these two, and no \<^verbatim>\<open>Accept\<close> header.
\<close>

theorem send_base_headers_lack_accept:
  "req_headers (last (sent (snd (send E action path None body auth st)))) =
     [(''Content-Type'', ''application/json''), (''Content-Accept'', ''application/json'')]
   \<and> map_of (req_headers (last (sent (snd (send E action path None body auth st)))))
         ''Accept'' = None"
  by (simp add: send_sent http_request_def merged_headers_def base_headers_def)

text \<open>
  C2. When the remote answers a call of \<^verbatim>\<open>send\<close> with status 200, \<^verbatim>\<open>send\<close> returns
  \<^verbatim>\<open>None\<close> for an empty body and the decoded body otherwise (and where the body is not
  JSON, the decoder's exception is all that can happen instead).
\<close>

theorem send_ok_returns_decoded_body:
  assumes "fst (remote E (remote_state st)
                  (http_request (self st) action path addl_headers body auth)) = resp"
    and "status_code resp = 200"
  shows "fst (send E action path addl_headers body auth st) =
           (if resp_text resp = [] then Inr VNone
            else case loads E (resp_text resp) of
                   Some v \<Rightarrow> Inr v
                 | None \<Rightarrow> Inl JSONDecodeError)"
  using assms by (simp add: send_unfold Let_def split: option.splits)

theorem send_ok_returns_decoded_body_witness:
  \<open>status_code (fst (remote (simulated 200 ''{"asset_id": "A1"}'') ()
       (http_request (init ''https://testnet.burstiq.com'' ''acme'')
          ''GET'' ''/api/burstchain/id/private'' None VNone None))) = 200
   \<and> fst (send (simulated 200 ''{"asset_id": "A1"}'') ''GET'' ''/api/burstchain/id/private''
             None VNone None (fresh ''https://testnet.burstiq.com'' ''acme''))
       = Inr (VDict [(''asset_id'', VStr ''A1'')])
   \<and> fst (send (simulated 200 '''') ''GET'' ''/api/burstchain/id/private''
             None VNone None (fresh ''https://testnet.burstiq.com'' ''acme''))
       = Inr VNone\<close>
proof -
  have dec: \<open>json_loads ''{"asset_id": "A1"}'' = Some (VDict [(''asset_id'', VStr ''A1'')])\<close>
    by code_simp
  have full: \<open>fst (send (simulated 200 ''{"asset_id": "A1"}'') ''GET''
                     ''/api/burstchain/id/private'' None VNone None
                     (fresh ''https://testnet.burstiq.com'' ''acme''))
               = Inr (VDict [(''asset_id'', VStr ''A1'')])\<close>
    using send_ok_returns_decoded_body [where E = \<open>simulated 200 ''{"asset_id": "A1"}''\<close>
        and st = "fresh ''https://testnet.burstiq.com'' ''acme''" and action = "''GET''"
        and path = "''/api/burstchain/id/private''" and addl_headers = None and body = VNone
        and auth = None
        and resp = \<open>\<lparr>status_code = 200, resp_text = ''{"asset_id": "A1"}''\<rparr>\<close>]
    by (simp add: simulated_answer simulated_codec dec)
  have empty: "fst (send (simulated 200 '''') ''GET'' ''/api/burstchain/id/private''
                      None VNone None (fresh ''https://testnet.burstiq.com'' ''acme''))
               = Inr VNone"
    using send_ok_returns_decoded_body [where E = "simulated 200 ''''"
        and st = "fresh ''https://testnet.burstiq.com'' ''acme''" and action = "''GET''"
        and path = "''/api/burstchain/id/private''" and addl_headers = None and body = VNone
        and auth = None and resp = "\<lparr>status_code = 200, resp_text = ''''\<rparr>"]
    by (simp add: simulated_answer)
  show ?thesis using full empty by (simp add: simulated_answer)
qed

text \<open>
  C3. When the remote answers a call of \<^verbatim>\<open>send\<close> with a status other than 200, \<^verbatim>\<open>send\<close>
  returns no value: the process exits with status 1, after one error line that holds
  the path, the status code and the response text, and after one request only.
\<close>

theorem send_failure_exits:
  assumes "fst (remote E (remote_state st)
                  (http_request (self st) action path addl_headers body auth)) = resp"
    and "status_code resp \<noteq> 200"
  shows "fst (send E action path addl_headers body auth st) = Inl (Exit 1)
       \<and> logged (snd (send E action path addl_headers body auth st)) =
           logged st @ [(ERROR, ''Call for '' @ path @ '' failed with code ''
                                  @ str_int (status_code resp) @ '' and response of ''
                                  @ resp_text resp)]
       \<and> sent (snd (send E action path addl_headers body auth st)) =
           sent st @ [http_request (self st) action path addl_headers body auth]"
  using assms by (simp add: send_unfold Let_def failure_message_def)

theorem send_failure_exits_witness:
  "status_code (fst (remote (simulated 500 ''boom'') ()
       (http_request (init ''https://testnet.burstiq.com'' ''acme'')
          ''GET'' ''/api/burstchain/id/private'' None VNone None))) \<noteq> 200
   \<and> fst (send (simulated 500 ''boom'') ''GET'' ''/api/burstchain/id/private'' None VNone None
             (fresh ''https://testnet.burstiq.com'' ''acme'')) = Inl (Exit 1)
   \<and> logged (snd (send (simulated 500 ''boom'') ''GET'' ''/api/burstchain/id/private'' None
                     VNone None (fresh ''https://testnet.burstiq.com'' ''acme''))) =
       [(ERROR, ''Call for /api/burstchain/id/private failed with code 500 and response of boom'')]
   \<and> length (sent (snd (send (simulated 500 ''boom'') ''GET'' ''/api/burstchain/id/private''
                     None VNone None (fresh ''https://testnet.burstiq.com'' ''acme'')))) = 1"
proof -
  have code: "str_int 500 = ''500''" by code_simp
  show ?thesis
    using send_failure_exits [where E = "simulated 500 ''boom''"
        and st = "fresh ''https://testnet.burstiq.com'' ''acme''" and action = "''GET''"
        and path = "''/api/burstchain/id/private''" and addl_headers = None and body = VNone
        and auth = None and resp = "\<lparr>status_code = 500, resp_text = ''boom''\<rparr>"]
    by (simp add: simulated_answer code fresh_def)
qed

text \<open>
  C4, at an empty token. A token that is supplied but empty gives a request without an
  \<^verbatim>\<open>Authorization\<close> header, not one with the header \<^verbatim>\<open>ID \<close> followed by the token.
\<close>

theorem empty_token_request_has_no_authorization:
  "map_of (req_headers (last (sent (snd
       (send_with_priv_id (simulated 200 '''') ''GET'' ''/api/burstchain/id/public''
          (Some '''') VNone (fresh ''https://testnet.burstiq.com'' ''acme''))))))
     ''Authorization'' = None
   \<and> map_of (req_headers (last (sent (snd
       (send_with_priv_id (simulated 200 '''') ''GET'' ''/api/burstchain/id/public''
          (Some '''') VNone (fresh ''https://testnet.burstiq.com'' ''acme''))))))
     ''Authorization'' \<noteq> Some (''ID '' @ '''')"
  by (simp add: send_with_priv_id_sent http_request_def merged_headers_def base_headers_def)

text \<open>
  C4, for the token as the code tests it. With a non-empty token, \<^verbatim>\<open>send_with_priv_id\<close> is \<^verbatim>\<open>send\<close> with the one extra
  header \<^verbatim>\<open>Authorization: ID <token>\<close> and no basic-auth credentials; with no token, or an
  empty one, it is \<^verbatim>\<open>send\<close> with no extra headers and no basic-auth credentials. In both
  cases result and state are those of the call of \<^verbatim>\<open>send\<close>, and the one request made is
  the one \<^verbatim>\<open>send\<close> builds from these arguments.
\<close>

theorem send_with_priv_id_delegates:
  "(p \<noteq> [] \<longrightarrow>
      send_with_priv_id E action path (Some p) body st =
        send E action path (Some [(''Authorization'', ''ID '' @ p)]) body None st
    \<and> sent (snd (send_with_priv_id E action path (Some p) body st)) =
        sent st @ [\<lparr>req_session = session (self st), req_action = action,
                    req_url = server (self st) @ path,
                    req_headers = [(''Content-Type'', ''application/json''),
                                   (''Content-Accept'', ''application/json''),
                                   (''Authorization'', ''ID '' @ p)],
                    req_json = body, req_auth = None\<rparr>])
   \<and> (priv_id = None \<or> priv_id = Some [] \<longrightarrow>
      send_with_priv_id E action path priv_id body st = send E action path None body None st
    \<and> sent (snd (send_with_priv_id E action path priv_id body st)) =
        sent st @ [\<lparr>req_session = session (self st), req_action = action,
                    req_url = server (self st) @ path,
                    req_headers = [(''Content-Type'', ''application/json''),
                                   (''Content-Accept'', ''application/json'')],
                    req_json = body, req_auth = None\<rparr>])"
proof (intro conjI impI)
  assume "p \<noteq> []"
  then show "send_with_priv_id E action path (Some p) body st =
               send E action path (Some [(''Authorization'', ''ID '' @ p)]) body None st"
    by (rule send_with_priv_id_token)
  then show "sent (snd (send_with_priv_id E action path (Some p) body st)) =
        sent st @ [\<lparr>req_session = session (self st), req_action = action,
                    req_url = server (self st) @ path,
                    req_headers = [(''Content-Type'', ''application/json''),
                                   (''Content-Accept'', ''application/json''),
                                   (''Authorization'', ''ID '' @ p)],
                    req_json = body, req_auth = None\<rparr>]"
    by (simp add: send_sent http_request_def merged_headers_token)
next
  assume "priv_id = None \<or> priv_id = Some []"
  then show "send_with_priv_id E action path priv_id body st =
               send E action path None body None st"
    by (rule send_with_priv_id_no_token)
  then show "sent (snd (send_with_priv_id E action path priv_id body st)) =
        sent st @ [\<lparr>req_session = session (self st), req_action = action,
                    req_url = server (self st) @ path,
                    req_headers = [(''Content-Type'', ''application/json''),
                                   (''Content-Accept'', ''application/json'')],
                    req_json = body, req_auth = None\<rparr>]"
    by (simp add: send_sent http_request_def merged_headers_None base_headers_def)
qed

theorem send_with_priv_id_delegates_witness:
  "''PRIV'' \<noteq> []
   \<and> send_with_priv_id (simulated 200 '''') ''GET'' ''/api/burstchain/id/public''
         (Some ''PRIV'') VNone (fresh ''https://testnet.burstiq.com'' ''acme'') =
       send (simulated 200 '''') ''GET'' ''/api/burstchain/id/public''
         (Some [(''Authorization'', ''ID PRIV'')]) VNone None
         (fresh ''https://testnet.burstiq.com'' ''acme'')
   \<and> sent (snd (send_with_priv_id (simulated 200 '''') ''GET'' ''/api/burstchain/id/public''
                   (Some ''PRIV'') VNone (fresh ''https://testnet.burstiq.com'' ''acme''))) =
       [\<lparr>req_session = \<lparr>trust_env = False\<rparr>, req_action = ''GET'',
         req_url = ''https://testnet.burstiq.com/api/burstchain/id/public'',
         req_headers = [(''Content-Type'', ''application/json''),
                        (''Content-Accept'', ''application/json''),
                        (''Authorization'', ''ID PRIV'')],
         req_json = VNone, req_auth = None\<rparr>]
   \<and> sent (snd (send_with_priv_id (simulated 200 '''') ''GET'' ''/api/burstchain/id/public''
                   None VNone (fresh ''https://testnet.burstiq.com'' ''acme''))) =
       [\<lparr>req_session = \<lparr>trust_env = False\<rparr>, req_action = ''GET'',
         req_url = ''https://testnet.burstiq.com/api/burstchain/id/public'',
         req_headers = [(''Content-Type'', ''application/json''),
                        (''Content-Accept'', ''application/json'')],
         req_json = VNone, req_auth = None\<rparr>]"
  using send_with_priv_id_delegates [where p = "''PRIV''" and priv_id = None
      and E = "simulated 200 ''''" and action = "''GET''"
      and path = "''/api/burstchain/id/public''" and body = VNone
      and st = "fresh ''https://testnet.burstiq.com'' ''acme''"]
  by (auto simp: fresh_def init_def)

text \<open>
  C5, at an empty token. \<^verbatim>\<open>create_asset\<close> with the empty string as its token makes its
  POST and returns the \<^verbatim>\<open>asset_id\<close>, but the request has no \<^verbatim>\<open>Authorization\<close> header: it
  carries no private-id auth.
\<close>

theorem create_asset_empty_token_has_no_authorization:
  \<open>map_of (req_headers (last (sent (snd
       (create_asset (simulated 200 ''{"asset_id": "A1"}'') (Some '''') ''address'' [''PUB'']
          (VDict [(''id'', VStr ''1234''), (''state'', VStr ''XX'')]) VNone
          (fresh ''https://testnet.burstiq.com'' ''acme''))))))
     ''Authorization'' = None
   \<and> length (sent (snd
       (create_asset (simulated 200 ''{"asset_id": "A1"}'') (Some '''') ''address'' [''PUB'']
          (VDict [(''id'', VStr ''1234''), (''state'', VStr ''XX'')]) VNone
          (fresh ''https://testnet.burstiq.com'' ''acme'')))) = 1\<close>
  by (simp add: create_asset_def Let_def snd_project send_with_priv_id_sent http_request_def
        merged_headers_def base_headers_def fresh_def)

text \<open>
  C5, for the token as the code tests it. \<^verbatim>\<open>create_asset\<close> makes one request: a POST to
  \<^verbatim>\<open>/api/burstchain/{tenant}/{chain}/asset\<close> with no basic-auth credentials and the body
  \<^verbatim>\<open>{owners, asset, asset_metadata}\<close> of its arguments; the request has the header
  \<^verbatim>\<open>Authorization: ID <token>\<close> when the token is not empty, and no \<^verbatim>\<open>Authorization\<close> header
  when the token is absent or empty. When the remote answers it with status 200 and a
  JSON body, the result is the \<^verbatim>\<open>asset_id\<close> field of that body: for the body
  \<^verbatim>\<open>{"asset_id": "A1"}\<close> it is \<^verbatim>\<open>"A1"\<close>.
\<close>

theorem create_asset_posts_and_returns_asset_id:
  assumes "r = \<lparr>req_session = session (self st), req_action = ''POST'',
               req_url = server (self st) @ ''/api/burstchain/'' @ client (self st) @ ''/''
                           @ chain_name @ ''/asset'',
               req_headers =
                 [(''Content-Type'', ''application/json''),
                  (''Content-Accept'', ''application/json'')]
                   @ (case private_id of
                        None \<Rightarrow> []
                      | Some p \<Rightarrow> if p = [] then [] else [(''Authorization'', ''ID '' @ p)]),
               req_json = VDict [(''owners'', VList (map VStr owners)), (''asset'', asset),
                                 (''asset_metadata'', asset_metadata)],
               req_auth = None\<rparr>"
  shows "sent (snd (create_asset E private_id chain_name owners asset asset_metadata st))
           = sent st @ [r]
       \<and> (answers E st r v \<longrightarrow>
            fst (create_asset E private_id chain_name owners asset asset_metadata st)
              = py_get v ''asset_id'')"
proof -
  let ?path = "''/api/burstchain/'' @ client (self st) @ ''/'' @ chain_name @ ''/asset''"
  let ?body = "VDict [(''owners'', VList (map VStr owners)), (''asset'', asset),
                      (''asset_metadata'', asset_metadata)]"
  have c: "create_asset E private_id chain_name owners asset asset_metadata st =
             (case send_with_priv_id E ''POST'' ?path private_id ?body st of
                (Inl e, st') \<Rightarrow> (Inl e, st')
              | (Inr resp, st') \<Rightarrow> (py_get resp ''asset_id'', st'))"
    by (simp add: create_asset_def Let_def)
  have r: "r = http_request (self st) ''POST'' ?path
                 (case private_id of
                    None \<Rightarrow> None
                  | Some p \<Rightarrow> if p \<noteq> [] then Some [(''Authorization'', ''ID '' @ p)] else None)
                 ?body None"
    unfolding send_with_priv_id_request by (simp add: assms)
  have 1: "sent (snd (create_asset E private_id chain_name owners asset asset_metadata st))
             = sent st @ [r]"
    by (simp only: c snd_project send_with_priv_id_sent r)
  have 2: "answers E st r v \<Longrightarrow>
             fst (create_asset E private_id chain_name owners asset asset_metadata st)
               = py_get v ''asset_id''"
    unfolding c fst_project r by (simp add: send_with_priv_id_answers)
  from 1 2 show ?thesis by blast
qed

theorem create_asset_posts_and_returns_asset_id_witness:
  \<open>answers (simulated 200 ''{"asset_id": "A1"}'') (fresh ''https://testnet.burstiq.com'' ''acme'')
       \<lparr>req_session = \<lparr>trust_env = False\<rparr>, req_action = ''POST'',
        req_url = ''https://testnet.burstiq.com/api/burstchain/acme/address/asset'',
        req_headers = [(''Content-Type'', ''application/json''),
                       (''Content-Accept'', ''application/json''),
                       (''Authorization'', ''ID PRIV'')],
        req_json = VDict [(''owners'', VList [VStr ''PUB'']),
                          (''asset'', VDict [(''id'', VStr ''1234''), (''state'', VStr ''XX'')]),
                          (''asset_metadata'', VNone)],
        req_auth = None\<rparr>
       (VDict [(''asset_id'', VStr ''A1'')])
   \<and> fst (create_asset (simulated 200 ''{"asset_id": "A1"}'') (Some ''PRIV'') ''address''
             [''PUB''] (VDict [(''id'', VStr ''1234''), (''state'', VStr ''XX'')]) VNone
             (fresh ''https://testnet.burstiq.com'' ''acme''))
       = Inr (VStr ''A1'')
   \<and> sent (snd (create_asset (simulated 200 ''{"asset_id": "A1"}'') (Some ''PRIV'') ''address''
             [''PUB''] (VDict [(''id'', VStr ''1234''), (''state'', VStr ''XX'')]) VNone
             (fresh ''https://testnet.burstiq.com'' ''acme'')))
       = [\<lparr>req_session = \<lparr>trust_env = False\<rparr>, req_action = ''POST'',
           req_url = ''https://testnet.burstiq.com/api/burstchain/acme/address/asset'',
           req_headers = [(''Content-Type'', ''application/json''),
                          (''Content-Accept'', ''application/json''),
                          (''Authorization'', ''ID PRIV'')],
           req_json = VDict [(''owners'', VList [VStr ''PUB'']),
                             (''asset'', VDict [(''id'', VStr ''1234''), (''state'', VStr ''XX'')]),
                             (''asset_metadata'', VNone)],
           req_auth = None\<rparr>]
   \<and> fst (create_asset (simulated 200 ''{"asset_id": "A1"}'') None ''address''
             [''PUB''] (VDict [(''id'', VStr ''1234''), (''state'', VStr ''XX'')]) VNone
             (fresh ''https://testnet.burstiq.com'' ''acme''))
       = Inr (VStr ''A1'')
   \<and> sent (snd (create_asset (simulated 200 ''{"asset_id": "A1"}'') None ''address''
             [''PUB''] (VDict [(''id'', VStr ''1234''), (''state'', VStr ''XX'')]) VNone
             (fresh ''https://testnet.burstiq.com'' ''acme'')))
       = [\<lparr>req_session = \<lparr>trust_env = False\<rparr>, req_action = ''POST'',
           req_url = ''https://testnet.burstiq.com/api/burstchain/acme/address/asset'',
           req_headers = [(''Content-Type'', ''application/json''),
                          (''Content-Accept'', ''application/json'')],
           req_json = VDict [(''owners'', VList [VStr ''PUB'']),
                             (''asset'', VDict [(''id'', VStr ''1234''), (''state'', VStr ''XX'')]),
                             (''asset_metadata'', VNone)],
           req_auth = None\<rparr>]\<close>
proof -
  have dec: \<open>json_loads ''{"asset_id": "A1"}'' = Some (VDict [(''asset_id'', VStr ''A1'')])\<close>
    by code_simp
  have ans: \<open>answers (simulated 200 ''{"asset_id": "A1"}'') st r (VDict [(''asset_id'', VStr ''A1'')])\<close>
    for st :: "unit state" and r
    by (simp add: answers_def simulated_answer simulated_codec dec)
  note inst = create_asset_posts_and_returns_asset_id
      [where st = "fresh ''https://testnet.burstiq.com'' ''acme''"
         and chain_name = "''address''" and owners = "[''PUB'']"
         and asset = "VDict [(''id'', VStr ''1234''), (''state'', VStr ''XX'')]"
         and asset_metadata = VNone and v = "VDict [(''asset_id'', VStr ''A1'')]"
         and E = \<open>simulated 200 ''{"asset_id": "A1"}''\<close>, OF refl]
  show ?thesis
    using inst [where private_id = "Some ''PRIV''"] inst [where private_id = None]
    by (simp add: ans fresh_def init_def)
qed




text \<open>
  C7. The constructor binds the client to the server URL and the tenant it is given and
  turns \<^verbatim>\<open>trust_env\<close> off. No operation changes the client object, so after any sequence
  of operations the client holds the same URL, tenant and session flag; and for every
  request made, whatever the user's credential file holds, the credentials on the wire
  are those of the request's \<^verbatim>\<open>auth\<close> argument.
\<close>

theorem client_binding_is_invariant:
  "server (init srv cl) = srv \<and> client (init srv cl) = cl
   \<and> trust_env (session (init srv cl)) = False
   \<and> self (snd (perform E c st)) = self st
   \<and> self (snd (run E cs \<lparr>self = init srv cl, remote_state = s, sent = [], logged = []\<rparr>))
       = init srv cl
   \<and> list_all (\<lambda>r. credentials_used netrc r = req_auth r)
       (sent (snd (run E cs \<lparr>self = init srv cl, remote_state = s, sent = [], logged = []\<rparr>)))"
proof -
  let ?st = "\<lparr>self = init srv cl, remote_state = s, sent = [], logged = []\<rparr>"
  have "list_all (\<lambda>r. req_session r = session (self ?st)) (sent (snd (run E cs ?st)))"
    by (rule run_sessions) simp
  then have "list_all (\<lambda>r. trust_env (req_session r) = False) (sent (snd (run E cs ?st)))"
    by (simp add: init_def list_all_iff)
  then have "list_all (\<lambda>r. credentials_used netrc r = req_auth r) (sent (snd (run E cs ?st)))"
    by (simp add: list_all_iff credentials_used_def split: option.splits)
  then show ?thesis
    by (simp add: run_self perform_self) (simp add: init_def)
qed

text \<open>
  C8, at an empty token. \<^verbatim>\<open>query\<close> and \<^verbatim>\<open>map_reduce\<close> with the empty string as their token
  make their POST without an \<^verbatim>\<open>Authorization\<close> header: the requests carry no private-id
  auth.
\<close>

theorem query_and_map_reduce_empty_token_have_no_authorization:
  "map_of (req_headers (last (sent (snd
       (query (simulated 200 '''') (Some '''') ''address'' ''WHERE asset.zip = 12345''
          (fresh ''https://testnet.burstiq.com'' ''acme''))))))
     ''Authorization'' = None
   \<and> map_of (req_headers (last (sent (snd
       (map_reduce (simulated 200 '''') (Some '''') ''address''
          ''function() { emit(this.asset.state, this) }'' ''function(k, v) { return v[0] }''
          None ''WHERE asset.zip = 12345''
          (fresh ''https://testnet.burstiq.com'' ''acme''))))))
     ''Authorization'' = None"
  by (simp add: query_def map_reduce_def Let_def snd_project send_with_priv_id_sent
        http_request_def merged_headers_def base_headers_def fresh_def)

text \<open>
  C8, for the token as the code tests it. \<^verbatim>\<open>query\<close> makes one request, a POST to
  \<^verbatim>\<open>/api/burstchain/{tenant}/{chain}/query\<close> with the body \<^verbatim>\<open>{tqlWhereClause}\<close>, and returns
  the \<^verbatim>\<open>assets\<close> field of the JSON answer; \<^verbatim>\<open>map_reduce\<close> makes one request, a POST to
  \<^verbatim>\<open>/api/burstchain/{tenant}/{chain}/mapreduce/query\<close> with the body
  \<^verbatim>\<open>{map, reduce, finalize, tqlWhereClause}\<close>, and returns the \<^verbatim>\<open>records\<close> field. Both
  requests have no basic-auth credentials, the header \<^verbatim>\<open>Authorization: ID <token>\<close> when the
  token is not empty, and no \<^verbatim>\<open>Authorization\<close> header when it is absent or empty.
\<close>

theorem query_and_map_reduce_post_and_project:
  assumes "rq = \<lparr>req_session = session (self st), req_action = ''POST'',
                req_url = server (self st) @ ''/api/burstchain/'' @ client (self st) @ ''/''
                            @ chain_name @ ''/query'',
                req_headers =
                  [(''Content-Type'', ''application/json''),
                   (''Content-Accept'', ''application/json'')]
                    @ (case private_id of
                         None \<Rightarrow> []
                       | Some p \<Rightarrow> if p = [] then [] else [(''Authorization'', ''ID '' @ p)]),
                req_json = VDict [(''tqlWhereClause'', VStr tql)],
                req_auth = None\<rparr>"
    and "rm = \<lparr>req_session = session (self st), req_action = ''POST'',
                req_url = server (self st) @ ''/api/burstchain/'' @ client (self st) @ ''/''
                            @ chain_name @ ''/mapreduce/query'',
                req_headers =
                  [(''Content-Type'', ''application/json''),
                   (''Content-Accept'', ''application/json'')]
                    @ (case private_id of
                         None \<Rightarrow> []
                       | Some p \<Rightarrow> if p = [] then [] else [(''Authorization'', ''ID '' @ p)]),
                req_json = VDict [(''map'', VStr map_func), (''reduce'', VStr reduce_func),
                                  (''finalize'', (case finalize_func of
                                                    None \<Rightarrow> VNone
                                                  | Some f \<Rightarrow> VStr f)),
                                  (''tqlWhereClause'', VStr tql)],
                req_auth = None\<rparr>"
  shows "sent (snd (query E private_id chain_name tql st)) = sent st @ [rq]
       \<and> (answers E st rq v \<longrightarrow>
            fst (query E private_id chain_name tql st) = py_get v ''assets'')
       \<and> sent (snd (map_reduce E private_id chain_name map_func reduce_func
                       finalize_func tql st)) = sent st @ [rm]
       \<and> (answers E st rm w \<longrightarrow>
            fst (map_reduce E private_id chain_name map_func reduce_func
                   finalize_func tql st) = py_get w ''records'')"
proof -
  let ?hdr = "case private_id of
                None \<Rightarrow> None
              | Some p \<Rightarrow> if p \<noteq> [] then Some [(''Authorization'', ''ID '' @ p)] else None"
  let ?qpath = "''/api/burstchain/'' @ client (self st) @ ''/'' @ chain_name @ ''/query''"
  let ?mpath = "''/api/burstchain/'' @ client (self st) @ ''/'' @ chain_name
                  @ ''/mapreduce/query''"
  let ?qbody = "VDict [(''tqlWhereClause'', VStr tql)]"
  let ?mbody = "VDict [(''map'', VStr map_func), (''reduce'', VStr reduce_func),
                       (''finalize'', (case finalize_func of
                                         None \<Rightarrow> VNone
                                       | Some f \<Rightarrow> VStr f)),
                       (''tqlWhereClause'', VStr tql)]"
  have q: "query E private_id chain_name tql st =
             (case send_with_priv_id E ''POST'' ?qpath private_id ?qbody st of
                (Inl e, st') \<Rightarrow> (Inl e, st')
              | (Inr resp, st') \<Rightarrow> (py_get resp ''assets'', st'))"
    by (simp add: query_def Let_def)
  have m: "map_reduce E private_id chain_name map_func reduce_func finalize_func tql st =
             (case send_with_priv_id E ''POST'' ?mpath private_id ?mbody st of
                (Inl e, st') \<Rightarrow> (Inl e, st')
              | (Inr resp, st') \<Rightarrow> (py_get resp ''records'', st'))"
    by (simp add: map_reduce_def Let_def)
  have rq: "rq = http_request (self st) ''POST'' ?qpath ?hdr ?qbody None"
    unfolding send_with_priv_id_request by (simp add: assms(1))
  have rm: "rm = http_request (self st) ''POST'' ?mpath ?hdr ?mbody None"
    unfolding send_with_priv_id_request by (simp add: assms(2))
  have 1: "sent (snd (query E private_id chain_name tql st)) = sent st @ [rq]"
    by (simp only: q snd_project send_with_priv_id_sent rq)
  have 2: "answers E st rq v \<Longrightarrow>
             fst (query E private_id chain_name tql st) = py_get v ''assets''"
    unfolding q fst_project rq by (simp add: send_with_priv_id_answers)
  have 3: "sent (snd (map_reduce E private_id chain_name map_func reduce_func
                        finalize_func tql st)) = sent st @ [rm]"
    by (simp only: m snd_project send_with_priv_id_sent rm)
  have 4: "answers E st rm w \<Longrightarrow>
             fst (map_reduce E private_id chain_name map_func reduce_func
                    finalize_func tql st) = py_get w ''records''"
    unfolding m fst_project rm by (simp add: send_with_priv_id_answers)
  from 1 2 3 4 show ?thesis by blast
qed

theorem query_and_map_reduce_post_and_project_witness:
  \<open>answers (simulated 200 ''{"assets": [{"id": "1234"}], "records": [7]}'')
       (fresh ''https://testnet.burstiq.com'' ''acme'')
       \<lparr>req_session = \<lparr>trust_env = False\<rparr>, req_action = ''POST'',
        req_url = ''https://testnet.burstiq.com/api/burstchain/acme/address/query'',
        req_headers = [(''Content-Type'', ''application/json''),
                       (''Content-Accept'', ''application/json''),
                       (''Authorization'', ''ID PRIV'')],
        req_json = VDict [(''tqlWhereClause'', VStr ''WHERE asset.zip = 12345'')],
        req_auth = None\<rparr>
       (VDict [(''assets'', VList [VDict [(''id'', VStr ''1234'')]]), (''records'', VList [VInt 7])])
   \<and> sent (snd (query (simulated 200 ''{"assets": [{"id": "1234"}], "records": [7]}'')
                   (Some ''PRIV'') ''address'' ''WHERE asset.zip = 12345''
                   (fresh ''https://testnet.burstiq.com'' ''acme'')))
       = [\<lparr>req_session = \<lparr>trust_env = False\<rparr>, req_action = ''POST'',
           req_url = ''https://testnet.burstiq.com/api/burstchain/acme/address/query'',
           req_headers = [(''Content-Type'', ''application/json''),
                          (''Content-Accept'', ''application/json''),
                          (''Authorization'', ''ID PRIV'')],
           req_json = VDict [(''tqlWhereClause'', VStr ''WHERE asset.zip = 12345'')],
           req_auth = None\<rparr>]
   \<and> fst (query (simulated 200 ''{"assets": [{"id": "1234"}], "records": [7]}'')
             (Some ''PRIV'') ''address'' ''WHERE asset.zip = 12345''
             (fresh ''https://testnet.burstiq.com'' ''acme''))
       = Inr (VList [VDict [(''id'', VStr ''1234'')]])
   \<and> sent (snd (map_reduce (simulated 200 ''{"assets": [{"id": "1234"}], "records": [7]}'')
                   (Some ''PRIV'') ''address'' ''function() { emit(this.asset.state, this) }''
                   ''function(k, v) { return v[0] }'' None ''WHERE asset.zip = 12345''
                   (fresh ''https://testnet.burstiq.com'' ''acme'')))
       = [\<lparr>req_session = \<lparr>trust_env = False\<rparr>, req_action = ''POST'',
           req_url = ''https://testnet.burstiq.com/api/burstchain/acme/address/mapreduce/query'',
           req_headers = [(''Content-Type'', ''application/json''),
                          (''Content-Accept'', ''application/json''),
                          (''Authorization'', ''ID PRIV'')],
           req_json = VDict [(''map'', VStr ''function() { emit(this.asset.state, this) }''),
                             (''reduce'', VStr ''function(k, v) { return v[0] }''),
                             (''finalize'', VNone),
                             (''tqlWhereClause'', VStr ''WHERE asset.zip = 12345'')],
           req_auth = None\<rparr>]
   \<and> fst (map_reduce (simulated 200 ''{"assets": [{"id": "1234"}], "records": [7]}'')
             (Some ''PRIV'') ''address'' ''function() { emit(this.asset.state, this) }''
             ''function(k, v) { return v[0] }'' None ''WHERE asset.zip = 12345''
             (fresh ''https://testnet.burstiq.com'' ''acme''))
       = Inr (VList [VInt 7])\<close>
proof -
  have dec: \<open>json_loads ''{"assets": [{"id": "1234"}], "records": [7]}'' =
               Some (VDict [(''assets'', VList [VDict [(''id'', VStr ''1234'')]]),
                            (''records'', VList [VInt 7])])\<close>
    by code_simp
  have ans: \<open>answers (simulated 200 ''{"assets": [{"id": "1234"}], "records": [7]}'') st r
               (VDict [(''assets'', VList [VDict [(''id'', VStr ''1234'')]]),
                       (''records'', VList [VInt 7])])\<close>
    for st :: "unit state" and r
    by (simp add: answers_def simulated_answer simulated_codec dec)
  show ?thesis
    using query_and_map_reduce_post_and_project
      [where private_id = "Some ''PRIV''" and st = "fresh ''https://testnet.burstiq.com'' ''acme''"
         and chain_name = "''address''" and tql = "''WHERE asset.zip = 12345''"
         and map_func = "''function() { emit(this.asset.state, this) }''"
         and reduce_func = "''function(k, v) { return v[0] }''" and finalize_func = None
         and v = "VDict [(''assets'', VList [VDict [(''id'', VStr ''1234'')]]),
                         (''records'', VList [VInt 7])]"
         and w = "VDict [(''assets'', VList [VDict [(''id'', VStr ''1234'')]]),
                         (''records'', VList [VInt 7])]"
         and E = \<open>simulated 200 ''{"assets": [{"id": "1234"}], "records": [7]}''\<close>,
       OF refl refl]
    by (simp add: ans fresh_def init_def)
qed

text \<open>
  C9. \<^verbatim>\<open>send_with_priv_id\<close> tests its token for truth: with the empty string it does what
  it does with no token, and the request has no \<^verbatim>\<open>Authorization\<close> header and no basic-auth
  credentials.
\<close>

theorem empty_token_is_no_token:
  "send_with_priv_id E action path (Some []) body st =
     send_with_priv_id E action path None body st
   \<and> sent (snd (send_with_priv_id E action path (Some []) body st)) =
       sent st @ [http_request (self st) action path None body None]
   \<and> map_of (req_headers (http_request (self st) action path None body None))
         ''Authorization'' = None
   \<and> req_auth (http_request (self st) action path None body None) = None"
  by (simp add: send_with_priv_id_def send_sent http_request_def merged_headers_def
        base_headers_def)

text \<open>
  C10. When the remote answers with status 200 and an empty body, \<^verbatim>\<open>send\<close> returns \<^verbatim>\<open>None\<close>,
  and each of the nine operations that project a field out of the response raises
  \<^verbatim>\<open>AttributeError\<close> instead of returning.
\<close>

theorem field_projection_raises_on_empty_body:
  assumes "\<forall>r. fst (remote E (remote_state st) r) = \<lparr>status_code = 200, resp_text = []\<rparr>"
  shows "fst (send E action path addl_headers body auth st) = Inr VNone
       \<and> fst (get_private_id E st) = Inl AttributeError
       \<and> fst (get_public_id E private_id st) = Inl AttributeError
       \<and> fst (create_asset E private_id chain_name owners asset asset_metadata st)
           = Inl AttributeError
       \<and> fst (get_asset_status E private_id chain_name asset_id st) = Inl AttributeError
       \<and> fst (update_asset E private_id chain_name asset_id asset asset_metadata st)
           = Inl AttributeError
       \<and> fst (transfer_asset E private_id chain_name asset_id owners new_owners
                 new_signer_public_id st) = Inl AttributeError
       \<and> fst (query E private_id chain_name tql st) = Inl AttributeError
       \<and> fst (map_reduce E private_id chain_name map_func reduce_func finalize_func tql st)
           = Inl AttributeError
       \<and> fst (create_consent E private_id chain_name owners contract_name contract st)
           = Inl AttributeError"
proof -
  have s: "fst (send E a p h b c st') = Inr VNone" if "remote_state st' = remote_state st"
    for a p h b c st'
    using assms that by (simp add: send_unfold Let_def)
  have w: "fst (send_with_priv_id E a p t b st') = Inr VNone"
    if "remote_state st' = remote_state st" for a p t b st'
    using s [OF that] by (simp add: send_with_priv_id_def)
  show ?thesis
    by (simp add: s w fst_project get_private_id_def get_public_id_def create_asset_def
          get_asset_status_def update_asset_def transfer_asset_def query_def map_reduce_def
          create_consent_def Let_def)
qed

theorem field_projection_raises_on_empty_body_witness:
  "(\<forall>r. fst (remote (simulated 200 '''') () r) = \<lparr>status_code = 200, resp_text = []\<rparr>)
   \<and> fst (send (simulated 200 '''') ''GET'' ''/api/burstchain/id/private'' None VNone None
             (fresh ''https://testnet.burstiq.com'' ''acme'')) = Inr VNone
   \<and> fst (get_private_id (simulated 200 '''') (fresh ''https://testnet.burstiq.com'' ''acme''))
       = Inl AttributeError
   \<and> fst (create_asset (simulated 200 '''') (Some ''PRIV'') ''address'' [''PUB'']
             (VDict [(''id'', VStr ''1234'')]) VNone
             (fresh ''https://testnet.burstiq.com'' ''acme'')) = Inl AttributeError
   \<and> fst (query (simulated 200 '''') (Some ''PRIV'') ''address'' ''WHERE asset.zip = 12345''
             (fresh ''https://testnet.burstiq.com'' ''acme'')) = Inl AttributeError"
proof -
  have a: "\<forall>r. fst (remote (simulated 200 '''')
                     (remote_state (fresh ''https://testnet.burstiq.com'' ''acme'')) r)
               = \<lparr>status_code = 200, resp_text = []\<rparr>"
    by (simp add: simulated_answer)
  show ?thesis
    using field_projection_raises_on_empty_body [OF a, where action = "''GET''"
        and path = "''/api/burstchain/id/private''" and addl_headers = None and body = VNone
        and auth = None and private_id = "Some ''PRIV''" and chain_name = "''address''"
        and owners = "[''PUB'']" and asset = "VDict [(''id'', VStr ''1234'')]"
        and asset_metadata = VNone and tql = "''WHERE asset.zip = 12345''"]
    by (simp add: simulated_answer)
qed

end
